theory Spec2Isabelle
  imports Main "HOL-Library.Word" "HOL-Library.AList"
begin

unbundle bit_operations_syntax

section \<open>Configuration (config.hpp, config.cpp)\<close>

text \<open>
  \<^verbatim>\<open>enum class UrlLayout { BAZEL, FLAT, SUBDIRS }\<close> and \<^verbatim>\<open>struct Config\<close> of config.hpp.
  The default member initialisers of the struct are the value \<open>default_Config\<close>.
\<close>

type_synonym byte = "8 word"

datatype UrlLayout = BAZEL | FLAT | SUBDIRS

record Config =
  ipc_endpoint :: string
  url :: string
  idle_timeout_seconds :: nat
  bearer_token :: "string option"
  layout :: UrlLayout
  headers :: "(string \<times> string) list"

definition default_Config :: Config where
  "default_Config =
     \<lparr>ipc_endpoint = [], url = [], idle_timeout_seconds = 0, bearer_token = None,
      layout = SUBDIRS, headers = []\<rparr>"

text \<open>
  \<^verbatim>\<open>std::string::substr(pos, count)\<close> and \<^verbatim>\<open>substr(pos)\<close>. Every call in the sources has
  \<open>pos \<le> size\<close> (position 0, position 2 behind a \<open>size \<ge> 2\<close> test, the position after a
  found character), so the \<^verbatim>\<open>std::out_of_range\<close> branch is never taken; the count is
  clamped to the end of the string as in C++.
\<close>

definition substr :: "string \<Rightarrow> nat \<Rightarrow> nat \<Rightarrow> string" where
  "substr s pos count = take count (drop pos s)"

definition substr_from :: "string \<Rightarrow> nat \<Rightarrow> string" where
  "substr_from s pos = drop pos s"

text \<open>\<^verbatim>\<open>std::to_string\<close> on an unsigned value: its decimal digits.\<close>

definition digit_char :: "nat \<Rightarrow> char" where
  "digit_char d = ''0123456789'' ! d"

fun to_string :: "nat \<Rightarrow> string" where
  "to_string n = (if n < 10 then [digit_char n] else to_string (n div 10) @ [digit_char (n mod 10)])"

declare to_string.simps [simp del]

text \<open>
  \<^verbatim>\<open>parse_int<T>\<close>: \<^verbatim>\<open>std::from_chars\<close> in base 10 on an unsigned type accepts a non-empty
  run of decimal digits (no sign, no blanks), must consume the whole string, and reports
  \<^verbatim>\<open>result_out_of_range\<close> when the value does not fit the type, whose largest value is the
  first argument here.
\<close>

definition is_digit :: "char \<Rightarrow> bool" where
  "is_digit c = (c \<in> set ''0123456789'')"

definition digit_value :: "char \<Rightarrow> nat" where
  "digit_value c = of_char c - 48"

definition digits_value :: "string \<Rightarrow> nat" where
  "digits_value s = foldl (\<lambda>acc c. 10 * acc + digit_value c) 0 s"

definition parse_int :: "nat \<Rightarrow> string \<Rightarrow> nat option" where
  "parse_int max_value str =
     (if str \<noteq> [] \<and> list_all is_digit str \<and> digits_value str \<le> max_value
      then Some (digits_value str) else None)"

definition parse_layout :: "string \<Rightarrow> UrlLayout" where
  "parse_layout str =
     (if str = ''bazel'' then BAZEL else if str = ''flat'' then FLAT else SUBDIRS)"

text \<open>
  The process environment is a map from variable names to values; \<^verbatim>\<open>std::getenv\<close> is the
  lookup. \<^verbatim>\<open>std::string::find('=')\<close> is the index of the first \<open>=\<close>, or \<open>npos\<close> (None).
\<close>

type_synonym environment = "string \<rightharpoonup> string"

fun find_char :: "char \<Rightarrow> string \<Rightarrow> nat option" where
  "find_char c [] = None"
| "find_char c (x # xs) =
     (if x = c then Some 0 else (case find_char c xs of None \<Rightarrow> None | Some i \<Rightarrow> Some (Suc i)))"

text \<open>
  The body of the attribute loop of \<^verbatim>\<open>parse_config\<close> for index \<open>i\<close> (config.cpp lines 78 to
  106): None is the \<^verbatim>\<open>return std::nullopt\<close> of a missing key or value variable.
\<close>

definition parse_attr :: "environment \<Rightarrow> nat \<Rightarrow> Config \<Rightarrow> Config option" where
  "parse_attr env i config =
     (let key_env = ''CRSH_ATTR_KEY_'' @ to_string i;
          value_env = ''CRSH_ATTR_VALUE_'' @ to_string i
      in case env key_env of
           None \<Rightarrow> None
         | Some key_str \<Rightarrow>
             (case env value_env of
                None \<Rightarrow> None
              | Some value_str \<Rightarrow>
                  if key_str = ''bearer-token'' then Some (config\<lparr>bearer_token := Some value_str\<rparr>)
                  else if key_str = ''layout'' then Some (config\<lparr>layout := parse_layout value_str\<rparr>)
                  else if key_str = ''header'' then
                    (case find_char CHR ''='' value_str of
                       None \<Rightarrow> Some config
                     | Some eq_pos \<Rightarrow>
                         Some (config\<lparr>headers := headers config @
                           [(substr value_str 0 eq_pos, substr_from value_str (eq_pos + 1))]\<rparr>))
                  else Some config))"

text \<open>
  The loop \<^verbatim>\<open>for (size_t i = 0; i < num_attr; ++i)\<close>: \<open>parse_attrs env i k config\<close> runs
  the \<open>k\<close> iterations that start at index \<open>i\<close>.
\<close>

fun parse_attrs :: "environment \<Rightarrow> nat \<Rightarrow> nat \<Rightarrow> Config \<Rightarrow> Config option" where
  "parse_attrs env i 0 config = Some config"
| "parse_attrs env i (Suc k) config =
     (case parse_attr env i config of
        None \<Rightarrow> None
      | Some config' \<Rightarrow> parse_attrs env (Suc i) k config')"

text \<open>
  \<^verbatim>\<open>parse_config\<close>, on the platform whose local streams are filesystem sockets (the endpoint
  is used as it is). \<^verbatim>\<open>unsigned int\<close> has 32 bits and \<^verbatim>\<open>size_t\<close> 64.
\<close>

definition getenv_nonempty :: "environment \<Rightarrow> string \<Rightarrow> string option" where
  "getenv_nonempty env name = (case env name of None \<Rightarrow> None | Some v \<Rightarrow> if v = [] then None else Some v)"

definition parse_config :: "environment \<Rightarrow> Config option" where
  "parse_config env =
     (case getenv_nonempty env ''CRSH_IPC_ENDPOINT'' of
        None \<Rightarrow> None
      | Some endpoint \<Rightarrow>
     (case getenv_nonempty env ''CRSH_URL'' of
        None \<Rightarrow> None
      | Some u \<Rightarrow>
     (case parse_int (2 ^ 32 - 1)
             (case getenv_nonempty env ''CRSH_IDLE_TIMEOUT'' of None \<Rightarrow> ''0'' | Some t \<Rightarrow> t) of
        None \<Rightarrow> None
      | Some idle_val \<Rightarrow>
     (case parse_int (2 ^ 64 - 1)
             (case getenv_nonempty env ''CRSH_NUM_ATTR'' of None \<Rightarrow> ''0'' | Some t \<Rightarrow> t) of
        None \<Rightarrow> None
      | Some num_attr \<Rightarrow>
          parse_attrs env 0 num_attr
            (default_Config\<lparr>ipc_endpoint := endpoint, url := u, idle_timeout_seconds := idle_val\<rparr>)))))"

section \<open>URL construction (storage\_client.cpp, build\_url)\<close>

definition build_url :: "Config \<Rightarrow> string \<Rightarrow> string" where
  "build_url config hex_key =
     (let base_url = (if url config = [] \<or> last (url config) \<noteq> CHR ''/''
                      then url config @ ''/'' else url config)
      in base_url @
         (case layout config of
            BAZEL \<Rightarrow>
              ''ac/'' @
              (if length hex_key \<ge> 64 then substr hex_key 0 64
               else hex_key @ substr hex_key 0 (64 - length hex_key))
          | FLAT \<Rightarrow> hex_key
          | SUBDIRS \<Rightarrow>
              (if length hex_key \<ge> 2 then substr hex_key 0 2 @ ''/'' @ substr_from hex_key 2
               else hex_key)))"

text \<open>
  The spec's words for the URL, for comparison with \<open>build_url\<close>: the layout-derived
  suffix of section 4.3 (SUBDIRS: the first two characters, a slash, the remainder, or the key
  as it is when shorter than two characters; FLAT: the key; BAZEL: \<open>ac/\<close> and the first 64
  characters, or the key followed by its own first \<open>64 - len\<close> characters), and the origin
  normalised to end with exactly one slash.
\<close>

definition spec_layout_suffix :: "UrlLayout \<Rightarrow> string \<Rightarrow> string" where
  "spec_layout_suffix l hex_key =
     (case l of
        SUBDIRS \<Rightarrow> (if length hex_key < 2 then hex_key
                    else take 2 hex_key @ ''/'' @ drop 2 hex_key)
      | FLAT \<Rightarrow> hex_key
      | BAZEL \<Rightarrow> ''ac/'' @ (if 64 \<le> length hex_key then take 64 hex_key
                             else hex_key @ take (64 - length hex_key) hex_key))"

definition spec_normalise_origin :: "string \<Rightarrow> string" where
  "spec_normalise_origin origin = rev (dropWhile (\<lambda>c. c = CHR ''/'') (rev origin)) @ ''/''"

definition trailing_slashes :: "string \<Rightarrow> nat" where
  "trailing_slashes s = length (takeWhile (\<lambda>c. c = CHR ''/'') (rev s))"

section \<open>Storage client: data (storage\_client.hpp)\<close>

datatype StorageResult = OK | NOOP | ERROR

record StorageResponse =
  result :: StorageResult
  error :: string
  data :: "byte list"

datatype HttpOperation = GET | PUT | DELETE | HEAD

text \<open>
  \<^verbatim>\<open>StorageCallback\<close> is a \<^verbatim>\<open>std::function\<close>. The closures the program builds are the three
  reply lambdas of \<^verbatim>\<open>IpcServer::process_client_data\<close> (they capture the connection) and the
  lambda of \<^verbatim>\<open>StorageClient::put\<close>, which captures the key, the payload and the
  caller's callback.
\<close>

datatype StorageCallback =
    GetReply
  | PutReply
  | RemoveReply
  | HeadCheck string "byte list" StorageCallback

type_synonym CURL = nat
type_synonym CURLcode = nat

definition CURLE_OK :: CURLcode where
  "CURLE_OK = 0"

text \<open>
  \<^verbatim>\<open>struct HttpRequest\<close>. Its members \<^verbatim>\<open>url\<close> and \<^verbatim>\<open>headers\<close> are \<open>req_url\<close> and
  \<open>req_headers\<close> here (the configuration has fields of the same names); the header list is
  the list of its lines, empty for \<^verbatim>\<open>nullptr\<close>, and the error buffer is the C string it
  holds.
\<close>

record HttpRequest =
  operation :: HttpOperation
  req_url :: string
  request_data :: "byte list"
  response_data :: "byte list"
  callback :: StorageCallback
  req_headers :: "string list"
  error_buf :: string
  upload_pos :: nat

text \<open>
  \<^verbatim>\<open>std::make_unique<HttpRequest>()\<close> followed by the assignments of operation, url, payload
  and callback: the other members keep their initialisers (no headers, an error buffer of
  zeros, which is the empty C string, and upload position 0).
\<close>

definition make_request ::
  "HttpOperation \<Rightarrow> string \<Rightarrow> byte list \<Rightarrow> StorageCallback \<Rightarrow> HttpRequest" where
  "make_request op u payload cb =
     \<lparr>operation = op, req_url = u, request_data = payload, response_data = [], callback = cb,
      req_headers = [], error_buf = [], upload_pos = 0\<rparr>"

datatype CURLMSG = CURLMSG_DONE | CURLMSG_OTHER

text \<open>
  One message of \<^verbatim>\<open>curl_multi_info_read\<close>: its kind, the easy handle, the transfer's
  \<^verbatim>\<open>CURLcode\<close> (\<^verbatim>\<open>msg->data.result\<close>), and with it the status that
  \<^verbatim>\<open>curl_easy_getinfo(handle, CURLINFO_RESPONSE_CODE, ...)\<close> reports for that handle (a long).
\<close>

record CURLMsg =
  msg :: CURLMSG
  easy_handle :: CURL
  data_result :: CURLcode
  response_code :: int

section \<open>IPC server: data (ipc\_server.hpp, ipc\_server.cpp)\<close>

definition STATUS_OK :: byte where "STATUS_OK = 0x00"
definition STATUS_NOOP :: byte where "STATUS_NOOP = 0x01"
definition STATUS_ERR :: byte where "STATUS_ERR = 0x02"
definition REQ_GET :: byte where "REQ_GET = 0x00"
definition REQ_PUT :: byte where "REQ_PUT = 0x01"
definition REQ_REMOVE :: byte where "REQ_REMOVE = 0x02"
definition REQ_STOP :: byte where "REQ_STOP = 0x03"
definition PUT_FLAG_OVERWRITE :: byte where "PUT_FLAG_OVERWRITE = 0x01"
definition MAX_MSG_LEN :: nat where "MAX_MSG_LEN = 255"

text \<open>
  \<^verbatim>\<open>struct ClientConnection\<close> of ipc\_server.hpp: the accumulator, the writing flag and the
  queue of outbound blobs. Its other members (the pipe handle, the pointer to the server and
  the buffer lent to libuv for reads) hold no protocol state.
\<close>

record ClientConnection =
  read_buf :: "byte list"
  write_queue :: "byte list list"
  writing :: bool

text \<open>
  The process as the callbacks see it: the configuration, the storage client
  (\<open>active_requests\<close> is \<^verbatim>\<open>_active_requests\<close>, \<open>multi_handles\<close> the easy handles added to
  \<^verbatim>\<open>_multi_handle\<close>), one client connection, and the event loop's side:
  \<^item> \<open>easy_init_ok n\<close>: whether the \<open>n\<close>-th call of \<^verbatim>\<open>curl_easy_init\<close> returns a handle
    (the handle is then identified by \<open>n\<close>); \<open>easy_init_calls\<close> counts the calls;
  \<^item> \<open>easy_strerror\<close>: \<^verbatim>\<open>curl_easy_strerror\<close>;
  \<^item> \<open>uv_write_ok n\<close>: whether the \<open>n\<close>-th call of \<^verbatim>\<open>uv_write\<close> returns 0; \<open>uv_writes\<close> lists
    the buffers passed to \<^verbatim>\<open>uv_write\<close>, in call order, each with that answer;
    \<open>writes_in_flight\<close> counts the accepted writes whose completion callback has not run;
  \<^item> \<open>stopped\<close>: \<^verbatim>\<open>uv_stop\<close> has been called; \<open>idle_timer\<close>: the armed timeout in
    milliseconds; \<open>client_closed\<close>: \<^verbatim>\<open>uv_close\<close> has been called on the connection;
  \<^item> \<open>invoked\<close>: every call of a \<^verbatim>\<open>StorageCallback\<close> with its argument, in call order.
\<close>

record Server =
  config :: Config
  active_requests :: "(CURL \<times> HttpRequest) list"
  multi_handles :: "CURL list"
  easy_init_ok :: "nat \<Rightarrow> bool"
  easy_init_calls :: nat
  easy_strerror :: "CURLcode \<Rightarrow> string"
  client :: ClientConnection
  uv_write_ok :: "nat \<Rightarrow> bool"
  uv_writes :: "(byte list \<times> bool) list"
  writes_in_flight :: nat
  stopped :: bool
  idle_timer :: "nat option"
  client_closed :: bool
  invoked :: "(StorageCallback \<times> StorageResponse) list"

text \<open>
  The process after start-up, before any connection has sent a byte, in a run where every
  \<^verbatim>\<open>curl_easy_init\<close> and every \<^verbatim>\<open>uv_write\<close> succeeds.
\<close>

definition initial_server :: "Config \<Rightarrow> Server" where
  "initial_server cfg =
     \<lparr>config = cfg, active_requests = [], multi_handles = [],
      easy_init_ok = (\<lambda>_. True), easy_init_calls = 0, easy_strerror = (\<lambda>_. ''curl error''),
      client = \<lparr>read_buf = [], write_queue = [], writing = False\<rparr>,
      uv_write_ok = (\<lambda>_. True), uv_writes = [], writes_in_flight = 0,
      stopped = False, idle_timer = None, client_closed = False, invoked = []\<rparr>"

section \<open>IPC server: the write queue\<close>

text \<open>
  \<^verbatim>\<open>uv_buf_init(base, len)\<close>: the buffer of the first \<open>len\<close> bytes at \<open>base\<close>.
\<close>

definition uv_buf_init :: "byte list \<Rightarrow> nat \<Rightarrow> byte list" where
  "uv_buf_init base len = take len base"

text \<open>
  \<^verbatim>\<open>IpcServer::flush_write_queue\<close>: nothing while a write is in flight or the queue is empty;
  otherwise the front blob leaves the queue and goes to \<^verbatim>\<open>uv_write\<close> in a buffer whose
  length is \<^verbatim>\<open>static_cast<unsigned int>(data->size())\<close>, the size reduced modulo \<open>2 ^ 32\<close>
  (an \<^verbatim>\<open>unsigned int\<close> has 32 bits). When \<^verbatim>\<open>uv_write\<close> refuses it, the flag is cleared and
  the blob is dropped with its \<^verbatim>\<open>unique_ptr\<close>.
\<close>

definition flush_write_queue :: "Server \<Rightarrow> Server" where
  "flush_write_queue s =
     (if writing (client s) \<or> write_queue (client s) = [] then s
      else
        let blob = hd (write_queue (client s));
            buf = uv_buf_init blob (length blob mod 2 ^ 32);
            r_ok = uv_write_ok s (length (uv_writes s));
            s1 = s\<lparr>client := (client s)\<lparr>writing := True, write_queue := tl (write_queue (client s))\<rparr>,
                   uv_writes := uv_writes s @ [(buf, r_ok)]\<rparr>
        in if \<not> r_ok then s1\<lparr>client := (client s1)\<lparr>writing := False\<rparr>\<rparr>
           else s1\<lparr>writes_in_flight := Suc (writes_in_flight s1)\<rparr>)"

text \<open>
  \<^verbatim>\<open>IpcServer::send_response\<close> of ipc\_server.hpp: the blob is pushed at the back of the
  connection's queue and \<^verbatim>\<open>flush_write_queue\<close> is called.
\<close>

definition send_response :: "Server \<Rightarrow> byte list \<Rightarrow> Server" where
  "send_response s blob =
     flush_write_queue (s\<lparr>client := (client s)\<lparr>write_queue := write_queue (client s) @ [blob]\<rparr>\<rparr>)"

text \<open>
  \<^verbatim>\<open>IpcServer::on_write_complete\<close>, which libuv calls once for each write that \<^verbatim>\<open>uv_write\<close>
  accepted (never while none is in flight).
\<close>

definition on_write_complete :: "Server \<Rightarrow> Server" where
  "on_write_complete s =
     (if writes_in_flight s = 0 then s
      else flush_write_queue
             (s\<lparr>client := (client s)\<lparr>writing := False\<rparr>,
                writes_in_flight := writes_in_flight s - 1\<rparr>))"

definition byte_of_char :: "char \<Rightarrow> byte" where
  "byte_of_char c = of_nat (of_char c)"

text \<open>
  \<^verbatim>\<open>write_u64_host_byte_order\<close> and \<^verbatim>\<open>read_u64_host_byte_order\<close> copy the eight bytes of a
  \<^verbatim>\<open>uint64_t\<close> as the host stores them; the host is little-endian here, as in the spec's
  first scenario. The value read is below \<open>2 ^ 64\<close>; the value written is reduced modulo
  \<open>2 ^ 64\<close> by its type.
\<close>

definition write_u64_host_byte_order :: "byte list \<Rightarrow> nat \<Rightarrow> byte list" where
  "write_u64_host_byte_order buf v =
     buf @ map (\<lambda>i. of_nat ((v mod 2 ^ 64) div 256 ^ i mod 256)) [0..<8]"

definition read_u64_host_byte_order :: "byte list \<Rightarrow> nat" where
  "read_u64_host_byte_order bytes = foldr (\<lambda>b acc. unat b + 256 * acc) (take 8 bytes) 0"

definition send_simple_response :: "Server \<Rightarrow> string \<Rightarrow> StorageResponse \<Rightarrow> Server" where
  "send_simple_response s operation_name response =
     (case result response of
        OK \<Rightarrow> send_response s [STATUS_OK]
      | NOOP \<Rightarrow> send_response s [STATUS_NOOP]
      | ERROR \<Rightarrow>
          let msg_len = min (length (error response)) MAX_MSG_LEN
          in send_response s
               ([STATUS_ERR, of_nat msg_len] @ map byte_of_char (take msg_len (error response))))"

section \<open>Storage client: operations (storage\_client.cpp)\<close>

text \<open>
  \<^verbatim>\<open>StorageClient::create_easy_handle\<close>: \<^verbatim>\<open>curl_easy_init\<close> may return no handle; otherwise
  the request gets its header list (the bearer token first, then the configured headers in
  their order). The transfer options set on the handle do not reach any result below.
\<close>

definition header_lines :: "Config \<Rightarrow> string list" where
  "header_lines c =
     (case bearer_token c of None \<Rightarrow> [] | Some t \<Rightarrow> [''Authorization: Bearer '' @ t]) @
     map (\<lambda>(name, v). name @ '': '' @ v) (headers c)"

definition create_easy_handle :: "Server \<Rightarrow> HttpRequest \<Rightarrow> CURL option \<times> HttpRequest \<times> Server" where
  "create_easy_handle s request =
     (let n = easy_init_calls s; s' = s\<lparr>easy_init_calls := Suc n\<rparr>
      in if \<not> easy_init_ok s n then (None, request, s')
         else (Some n, request\<lparr>req_headers := header_lines (config s)\<rparr>, s'))"

text \<open>
  The two statements that end every scheduling function:
  \<^verbatim>\<open>_active_requests[handle] = std::move(request); curl_multi_add_handle(_multi_handle, handle);\<close>
\<close>

definition add_request :: "Server \<Rightarrow> CURL \<Rightarrow> HttpRequest \<Rightarrow> Server" where
  "add_request s handle request =
     s\<lparr>active_requests := AList.update handle request (active_requests s),
       multi_handles := multi_handles s @ [handle]\<rparr>"

definition handle_error :: StorageResponse where
  "handle_error = \<lparr>result = ERROR, error = ''Failed to create curl handle'', data = []\<rparr>"

definition note_call :: "StorageCallback \<Rightarrow> StorageResponse \<Rightarrow> Server \<Rightarrow> Server" where
  "note_call cb response s = s\<lparr>invoked := invoked s @ [(cb, response)]\<rparr>"

text \<open>
  \<^verbatim>\<open>StorageClient::do_put\<close>, and the call of a \<^verbatim>\<open>StorageCallback\<close>: \<open>invoke cb response s\<close>
  runs the body of the closure \<open>cb\<close>. The reply lambdas are those of
  \<^verbatim>\<open>process_client_data\<close> (a GET that is OK sends the header blob, status and length, and
  then the body blob); the \<open>HeadCheck\<close> lambda is the one \<^verbatim>\<open>StorageClient::put\<close> builds. The two
  functions call each other: \<open>do_put\<close> calls the callback when no handle can be created, and
  the \<open>HeadCheck\<close> lambda calls \<open>do_put\<close>.
\<close>

function (sequential) do_put :: "Server \<Rightarrow> string \<Rightarrow> byte list \<Rightarrow> StorageCallback \<Rightarrow> Server"
  and invoke :: "StorageCallback \<Rightarrow> StorageResponse \<Rightarrow> Server \<Rightarrow> Server" where
  "do_put s hex_key payload cb =
     (case create_easy_handle s (make_request PUT (build_url (config s) hex_key) payload cb) of
        (None, request, s') \<Rightarrow> invoke cb handle_error s'
      | (Some handle, request, s') \<Rightarrow> add_request s' handle request)"
| "invoke GetReply response s0 =
     (let s = note_call GetReply response s0
      in if result response = OK then
           send_response
             (send_response s (write_u64_host_byte_order [STATUS_OK] (length (data response))))
             (data response)
         else send_simple_response s ''GET'' response)"
| "invoke PutReply response s0 =
     send_simple_response (note_call PutReply response s0) ''PUT'' response"
| "invoke RemoveReply response s0 =
     send_simple_response (note_call RemoveReply response s0) ''REMOVE'' response"
| "invoke (HeadCheck hex_key payload cb) response s0 =
     (let s = note_call (HeadCheck hex_key payload cb) response s0
      in if result response = NOOP then do_put s hex_key payload cb
         else if result response = OK then invoke cb \<lparr>result = NOOP, error = [], data = []\<rparr> s
         else invoke cb response s)"
  by pat_completeness auto
termination
  by (relation "measure (\<lambda>x. case x of
         Inl (s, hex_key, payload, cb) \<Rightarrow> 2 * size cb + 1
       | Inr (cb, response, s) \<Rightarrow> 2 * size cb)") auto

definition get :: "Server \<Rightarrow> string \<Rightarrow> StorageCallback \<Rightarrow> Server" where
  "get s hex_key cb =
     (case create_easy_handle s (make_request GET (build_url (config s) hex_key) [] cb) of
        (None, request, s') \<Rightarrow> invoke cb handle_error s'
      | (Some handle, request, s') \<Rightarrow> add_request s' handle request)"

text \<open>
  \<^verbatim>\<open>StorageClient::put\<close>. Without overwrite the HEAD request is created first; its callback,
  the \<open>HeadCheck\<close> lambda, is assigned after the handle exists.
\<close>

definition put :: "Server \<Rightarrow> string \<Rightarrow> byte list \<Rightarrow> bool \<Rightarrow> StorageCallback \<Rightarrow> Server" where
  "put s hex_key payload overwrite cb =
     (if overwrite then do_put s hex_key payload cb
      else
        case create_easy_handle s (make_request HEAD (build_url (config s) hex_key) [] cb) of
          (None, request, s') \<Rightarrow> invoke cb handle_error s'
        | (Some handle, request, s') \<Rightarrow>
            add_request s' handle (request\<lparr>callback := HeadCheck hex_key payload cb\<rparr>))"

definition remove_op :: "Server \<Rightarrow> string \<Rightarrow> StorageCallback \<Rightarrow> Server" where
  "remove_op s hex_key cb =
     (case create_easy_handle s (make_request DELETE (build_url (config s) hex_key) [] cb) of
        (None, request, s') \<Rightarrow> invoke cb handle_error s'
      | (Some handle, request, s') \<Rightarrow> add_request s' handle request)"

text \<open>\<^verbatim>\<open>StorageClient::write_callback\<close>: the engine hands over body bytes as they arrive.\<close>

definition write_callback :: "HttpRequest \<Rightarrow> byte list \<Rightarrow> HttpRequest" where
  "write_callback request bytes = request\<lparr>response_data := response_data request @ bytes\<rparr>"

text \<open>\<^verbatim>\<open>std::to_string\<close> on a long.\<close>

definition to_string_long :: "int \<Rightarrow> string" where
  "to_string_long i = (if i < 0 then ''-'' @ to_string (nat (- i)) else to_string (nat i))"

text \<open>
  The classification of \<^verbatim>\<open>StorageClient::check_multi_info\<close> (lines 285 to 346): from the
  transfer's \<^verbatim>\<open>CURLcode\<close> and the HTTP status to the result, the error text and the request
  (a GET answered 404 has its body cleared). The fourth argument is \<^verbatim>\<open>curl_easy_strerror\<close>.
\<close>

definition classify ::
  "HttpRequest \<Rightarrow> CURLcode \<Rightarrow> int \<Rightarrow> (CURLcode \<Rightarrow> string) \<Rightarrow> StorageResult \<times> string \<times> HttpRequest" where
  "classify request res http_code strerror =
     (if res \<noteq> CURLE_OK then
        (ERROR, if error_buf request \<noteq> [] then error_buf request else strerror res, request)
      else
        case operation request of
          GET \<Rightarrow>
            if http_code = 200 then (OK, [], request)
            else if http_code = 404 then (NOOP, [], request\<lparr>response_data := []\<rparr>)
            else (ERROR, ''HTTP '' @ to_string_long http_code, request)
        | HEAD \<Rightarrow>
            if http_code = 200 then (OK, [], request)
            else if http_code = 404 then (NOOP, [], request)
            else (ERROR, ''HTTP '' @ to_string_long http_code, request)
        | PUT \<Rightarrow>
            if http_code \<ge> 200 \<and> http_code < 300 then (OK, [], request)
            else if http_code = 412 \<or> http_code = 409 then (NOOP, [], request)
            else (ERROR, ''HTTP '' @ to_string_long http_code, request)
        | DELETE \<Rightarrow>
            if http_code \<ge> 200 \<and> http_code < 300 then (OK, [], request)
            else if http_code = 404 then (NOOP, [], request)
            else (ERROR, ''HTTP '' @ to_string_long http_code, request))"

text \<open>
  The body of the loop of \<^verbatim>\<open>check_multi_info\<close> for one message: other messages than DONE are
  skipped; a handle found in the registry is erased from it and from the multi handle, and
  then its callback is called with the classified response and the captured body.
\<close>

definition erase_request :: "Server \<Rightarrow> CURL \<Rightarrow> Server" where
  "erase_request s handle =
     s\<lparr>active_requests := AList.delete handle (active_requests s),
       multi_handles := removeAll handle (multi_handles s)\<rparr>"

definition complete :: "Server \<Rightarrow> CURLMsg \<Rightarrow> Server" where
  "complete s m =
     (if msg m \<noteq> CURLMSG_DONE then s
      else
        case map_of (active_requests s) (easy_handle m) of
          None \<Rightarrow> s
        | Some request \<Rightarrow>
            (case classify request (data_result m) (response_code m) (easy_strerror s) of
               (http_result, err, req) \<Rightarrow>
                 invoke (callback req)
                   \<lparr>result = http_result, error = err, data = response_data req\<rparr>
                   (erase_request s (easy_handle m))))"

text \<open>
  \<^verbatim>\<open>check_multi_info\<close> drains the engine's completion queue, given here as the list of the
  messages \<^verbatim>\<open>curl_multi_info_read\<close> returns.
\<close>

fun check_multi_info :: "Server \<Rightarrow> CURLMsg list \<Rightarrow> Server" where
  "check_multi_info s [] = s"
| "check_multi_info s (m # ms) = check_multi_info (complete s m) ms"

section \<open>IPC server: decoding requests (ipc\_server.cpp)\<close>

definition hex_digit :: "nat \<Rightarrow> char" where
  "hex_digit d = ''0123456789abcdef'' ! d"

definition format_hex :: "byte list \<Rightarrow> string" where
  "format_hex bytes = concat (map (\<lambda>b. [hex_digit (unat b div 16), hex_digit (unat b mod 16)]) bytes)"

definition stop :: "Server \<Rightarrow> Server" where
  "stop s = s\<lparr>stopped := True\<rparr>"

definition reset_idle_timer :: "Server \<Rightarrow> Server" where
  "reset_idle_timer s =
     (if idle_timeout_seconds (config s) = 0 then s
      else s\<lparr>idle_timer := Some (idle_timeout_seconds (config s) * 1000)\<rparr>)"

definition set_read_buf :: "Server \<Rightarrow> byte list \<Rightarrow> Server" where
  "set_read_buf s buf = s\<lparr>client := (client s)\<lparr>read_buf := buf\<rparr>\<rparr>"

text \<open>
  \<^verbatim>\<open>IpcServer::process_client_data\<close>. \<open>len\<close> and \<open>offset\<close> are \<^verbatim>\<open>size_t\<close> values bounded by the
  size of the buffer; the one sum that can pass \<open>2 ^ 64\<close> is \<open>offset + value_len\<close>, where
  \<open>value_len\<close> is any 64-bit value read from the wire, and it is reduced modulo \<open>2 ^ 64\<close> as
  the unsigned addition does. When that sum wraps, the test for an incomplete message passes
  (the wrapped sum is below \<open>offset\<close>, so not above \<open>len\<close>) and the value is built from the
  range \<^verbatim>\<open>[data + offset, data + offset + value_len)\<close>, whose end lies before its start: the
  behaviour is undefined, and the standard library's range constructor raises
  \<^verbatim>\<open>std::length_error\<close>, which nothing catches. That outcome is \<open>Inl Length_error\<close>.
  The reply lambdas capture the connection; \<open>buf\<close> is a reference to its accumulator, which
  the storage client does not touch.
\<close>

datatype fatal = Length_error

function process_client_data :: "Server \<Rightarrow> fatal + Server" where
  "process_client_data s =
     (let buf = read_buf (client s); len = length buf
      in if buf = [] then Inr s
         else
           let request_type = hd buf; offset = (1::nat)
           in if request_type = REQ_STOP then
                Inr (stop (send_response (set_read_buf s (drop offset buf)) [STATUS_OK]))
              else if request_type \<noteq> REQ_GET \<and> request_type \<noteq> REQ_PUT \<and> request_type \<noteq> REQ_REMOVE then
                Inr (stop s)
              else if len < offset + 1 then Inr s
              else
                let key_len = unat (buf ! offset); offset = offset + 1
                in if len < offset + key_len then Inr s
                   else
                     let hex_key = format_hex (take key_len (drop offset buf));
                         offset = offset + key_len
                     in if request_type = REQ_GET then
                          process_client_data
                            (set_read_buf (get s hex_key GetReply) (drop offset buf))
                        else if request_type = REQ_PUT then
                          (if len < offset + 1 then Inr s
                           else
                             let flags = buf ! offset; offset = offset + 1
                             in if len < offset + 8 then Inr s
                                else
                                  let value_len = read_u64_host_byte_order (take 8 (drop offset buf));
                                      offset = offset + 8
                                  in if len < (offset + value_len) mod 2 ^ 64 then Inr s
                                     else if 2 ^ 64 \<le> offset + value_len then Inl Length_error
                                     else
                                       let val = take value_len (drop offset buf);
                                           offset = offset + value_len;
                                           overwrite = (flags AND PUT_FLAG_OVERWRITE \<noteq> 0)
                                       in process_client_data
                                            (set_read_buf (put s hex_key val overwrite PutReply)
                                               (drop offset buf)))
                        else
                          process_client_data
                            (set_read_buf (remove_op s hex_key RemoveReply) (drop offset buf)))"
  by pat_completeness auto
termination
  by (relation "measure (\<lambda>s. length (read_buf (client s)))") (auto simp: set_read_buf_def)

declare process_client_data.simps [simp del]

text \<open>
  \<^verbatim>\<open>IpcServer::on_client_read\<close>: \<open>Data bytes\<close> is a read of \<open>nread = length bytes\<close> bytes
  (nothing happens when \<open>nread = 0\<close>), \<open>Read_failed\<close> a negative \<open>nread\<close> (end of file or an
  error), which closes the connection.
\<close>

datatype read_result = Data "byte list" | Read_failed

fun on_client_read :: "Server \<Rightarrow> read_result \<Rightarrow> fatal + Server" where
  "on_client_read s (Data bytes) =
     (if bytes = [] then Inr s
      else
        let s1 = reset_idle_timer s
        in process_client_data (set_read_buf s1 (read_buf (client s1) @ bytes)))"
| "on_client_read s Read_failed = Inr (s\<lparr>client_closed := True\<rparr>)"

section \<open>Observations used in the statements\<close>

text \<open>
  \<open>wire_form blob\<close> is the buffer \<^verbatim>\<open>uv_write\<close> gets for a blob of the queue. \<open>all_blobs\<close> are
  the buffers of a connection in the order in which \<^verbatim>\<open>uv_write\<close> has received or will
  receive them: those already passed to it, then those of the queue. \<open>in_flight_ok\<close> says
  that the flag of the connection is set exactly when one accepted write awaits its
  completion callback.
\<close>

definition wire_form :: "byte list \<Rightarrow> byte list" where
  "wire_form blob = uv_buf_init blob (length blob mod 2 ^ 32)"

definition all_blobs :: "Server \<Rightarrow> byte list list" where
  "all_blobs s = map fst (uv_writes s) @ map wire_form (write_queue (client s))"

definition in_flight_ok :: "Server \<Rightarrow> bool" where
  "in_flight_ok s = (writes_in_flight s = (if writing (client s) then 1 else 0))"

text \<open>
  What can happen to the write queue of a connection, in any order: a blob is enqueued, the
  completion callback of the write in flight runs, or one of the reply lambdas is called
  (which the storage client does when the operation completes). \<open>simple_response\<close> is the
  one blob of a reply without a body; \<open>enqueued\<close> lists the blobs an event appends.
\<close>

definition simple_response :: "StorageResponse \<Rightarrow> byte list" where
  "simple_response response =
     (if result response = OK then [STATUS_OK]
      else if result response = NOOP then [STATUS_NOOP]
      else [STATUS_ERR, of_nat (min (length (error response)) MAX_MSG_LEN)] @
             map byte_of_char (take (min (length (error response)) MAX_MSG_LEN) (error response)))"

datatype writer_event =
    Enqueue "byte list"
  | Write_done
  | Get_reply StorageResponse
  | Put_reply StorageResponse
  | Remove_reply StorageResponse

fun writer_step :: "Server \<Rightarrow> writer_event \<Rightarrow> Server" where
  "writer_step s (Enqueue blob) = send_response s blob"
| "writer_step s Write_done = on_write_complete s"
| "writer_step s (Get_reply response) = invoke GetReply response s"
| "writer_step s (Put_reply response) = invoke PutReply response s"
| "writer_step s (Remove_reply response) = invoke RemoveReply response s"

fun enqueued :: "writer_event \<Rightarrow> byte list list" where
  "enqueued (Enqueue blob) = [blob]"
| "enqueued Write_done = []"
| "enqueued (Get_reply response) =
     (if result response = OK
      then [write_u64_host_byte_order [STATUS_OK] (length (data response)), data response]
      else [simple_response response])"
| "enqueued (Put_reply response) = [simple_response response]"
| "enqueued (Remove_reply response) = [simple_response response]"

text \<open>
  The reply lambdas are the callbacks the IPC server passes in; \<open>reply_of\<close> is the reply
  lambda a callback ends in (a \<open>HeadCheck\<close> closure holds the caller's callback).
  \<open>pending k s\<close> counts the registered requests that hold \<open>k\<close>, \<open>calls k s\<close> the calls of \<open>k\<close> so
  far. \<open>fresh_handles\<close>: the registry has one entry for each handle, and each was returned by
  an earlier \<^verbatim>\<open>curl_easy_init\<close>. \<open>same_units s s'\<close>: from \<open>s\<close> to \<open>s'\<close> no reply lambda was
  gained or lost, counting the pending and the called ones together; \<open>conserved cb s s'\<close>:
  exactly one was gained, for the reply lambda of \<open>cb\<close>.
\<close>

definition is_reply :: "StorageCallback \<Rightarrow> bool" where
  "is_reply cb = (cb = GetReply \<or> cb = PutReply \<or> cb = RemoveReply)"

fun reply_of :: "StorageCallback \<Rightarrow> StorageCallback" where
  "reply_of (HeadCheck hex_key payload cb) = reply_of cb"
| "reply_of cb = cb"

definition pending :: "StorageCallback \<Rightarrow> Server \<Rightarrow> nat" where
  "pending k s = length (filter (\<lambda>(h, r). reply_of (callback r) = k) (active_requests s))"

definition calls :: "StorageCallback \<Rightarrow> Server \<Rightarrow> nat" where
  "calls k s = length (filter (\<lambda>(cb, r). cb = k) (invoked s))"

definition fresh_handles :: "Server \<Rightarrow> bool" where
  "fresh_handles s =
     (distinct (map fst (active_requests s)) \<and>
      list_all (\<lambda>(h, r). h < easy_init_calls s) (active_requests s))"

definition same_units :: "Server \<Rightarrow> Server \<Rightarrow> bool" where
  "same_units s s' = (\<forall>k. is_reply k \<longrightarrow> pending k s' + calls k s' = pending k s + calls k s)"

definition conserved :: "StorageCallback \<Rightarrow> Server \<Rightarrow> Server \<Rightarrow> bool" where
  "conserved cb s s' =
     (fresh_handles s' \<and>
      (\<forall>k. is_reply k \<longrightarrow>
         pending k s' + calls k s' = pending k s + calls k s + (if reply_of cb = k then 1 else 0)))"

text \<open>The origin of the spec's scenarios, with the default SUBDIRS layout.\<close>

definition example_config :: Config where
  "example_config = default_Config\<lparr>ipc_endpoint := ''/tmp/crsh.sock'', url := ''https://c.example/''\<rparr>"

text \<open>
  What can happen to the storage client, in any order: an operation is scheduled, or the
  engine's completion queue is drained. \<open>scheduled k e\<close> is 1 when the event schedules an
  operation whose callback ends in the reply lambda \<open>k\<close>.
\<close>

datatype client_event =
    Get string StorageCallback
  | Put string "byte list" bool StorageCallback
  | Remove string StorageCallback
  | Completions "CURLMsg list"

fun client_step :: "Server \<Rightarrow> client_event \<Rightarrow> Server" where
  "client_step s (Get hex_key cb) = get s hex_key cb"
| "client_step s (Put hex_key payload overwrite cb) = put s hex_key payload overwrite cb"
| "client_step s (Remove hex_key cb) = remove_op s hex_key cb"
| "client_step s (Completions ms) = check_multi_info s ms"

fun scheduled :: "StorageCallback \<Rightarrow> client_event \<Rightarrow> nat" where
  "scheduled k (Get hex_key cb) = (if reply_of cb = k then 1 else 0)"
| "scheduled k (Put hex_key payload overwrite cb) = (if reply_of cb = k then 1 else 0)"
| "scheduled k (Remove hex_key cb) = (if reply_of cb = k then 1 else 0)"
| "scheduled k (Completions ms) = 0"

text \<open>The same origin with the FLAT layout (scenarios 3 to 5).\<close>

definition flat_config :: Config where
  "flat_config = example_config\<lparr>layout := FLAT\<rparr>"

section \<open>Properties of the URL construction\<close>

lemma trailing_slashes_0: "trailing_slashes s = 0 \<longleftrightarrow> (s = [] \<or> last s \<noteq> CHR ''/'')"
  by (cases s rule: rev_cases) (auto simp: trailing_slashes_def)

text \<open>
  C8 (as amended). The built URL is the configured origin, followed by one slash exactly when
  the origin has no trailing slash (it is empty or ends with another character), followed by
  the layout-derived suffix. Trailing slashes the origin already has are all kept: the
  normalised origin ends with at least one slash, not with exactly one.
\<close>

theorem build_url_origin:
  "build_url cfg hex_key =
     url cfg @ replicate (1 - trailing_slashes (url cfg)) CHR ''/'' @
     spec_layout_suffix (layout cfg) hex_key"
proof (cases "trailing_slashes (url cfg) = 0")
  case True
  then show ?thesis
    using trailing_slashes_0 [of "url cfg"]
    by (cases "layout cfg")
      (auto simp: build_url_def spec_layout_suffix_def substr_def substr_from_def Let_def)
next
  case False
  then show ?thesis
    using trailing_slashes_0 [of "url cfg"]
    by (cases "layout cfg")
      (auto simp: build_url_def spec_layout_suffix_def substr_def substr_from_def Let_def)
qed

text \<open>
  C8 as the spec states it fails: for the origin \<open>https://c.example//\<close> the URL keeps both
  slashes, where the origin normalised to exactly one slash would give \<open>https://c.example/ab\<close>.
\<close>

theorem build_url_keeps_surplus_slashes:
  "build_url (default_Config\<lparr>url := ''https://c.example//'', layout := FLAT\<rparr>) ''ab''
     = ''https://c.example//ab'' \<and>
   spec_normalise_origin (url (default_Config\<lparr>url := ''https://c.example//'', layout := FLAT\<rparr>))
     @ spec_layout_suffix FLAT ''ab'' = ''https://c.example/ab''"
  by (simp add: build_url_def default_Config_def spec_normalise_origin_def spec_layout_suffix_def)

text \<open>
  C3. Under the BAZEL layout the key \<open>0123456789\<close> (the hex form of a five-byte key) gives
  20 characters after \<open>ac/\<close>, not 64: \<^verbatim>\<open>hex_key.substr(0, 64 - hex_key.size())\<close> is clamped
  to the key's own length, so a key shorter than 32 characters is only doubled.
\<close>

theorem bazel_short_key_suffix:
  "build_url (default_Config\<lparr>url := ''https://c.example/'', layout := BAZEL\<rparr>) ''0123456789''
     = ''https://c.example/ac/01234567890123456789'' \<and>
   length (drop (length ''https://c.example/ac/'')
     (build_url (default_Config\<lparr>url := ''https://c.example/'', layout := BAZEL\<rparr>) ''0123456789'')) = 20"
  by (simp add: build_url_def default_Config_def substr_def)

text \<open>
  What does hold for the BAZEL layout: the text after \<open>ac/\<close> has 64 characters when the key has
  at least 32, and twice the key's length below that.
\<close>

lemma bazel_suffix_length:
  assumes "layout cfg = BAZEL"
  shows "length (build_url cfg hex_key) =
           length (url cfg) + (1 - trailing_slashes (url cfg)) + 3 +
           min 64 (2 * length hex_key)"
  using assms trailing_slashes_0 [of "url cfg"]
  by (auto simp: build_url_def substr_def Let_def min_def)

section \<open>Properties of the configuration parser\<close>

text \<open>
  C10. An attribute whose key is not \<open>bearer-token\<close>, \<open>layout\<close> or \<open>header\<close>, with both of its
  environment variables present, is skipped: the loop body succeeds with the configuration
  unchanged, and the loop goes on with the next index.
\<close>

theorem unknown_attribute_ignored:
  assumes "env (''CRSH_ATTR_KEY_'' @ to_string i) = Some key_str"
    and "env (''CRSH_ATTR_VALUE_'' @ to_string i) = Some value_str"
    and "key_str \<noteq> ''bearer-token''" and "key_str \<noteq> ''layout''" and "key_str \<noteq> ''header''"
  shows "parse_attr env i cfg = Some cfg \<and>
         parse_attrs env i (Suc k) cfg = parse_attrs env (Suc i) k cfg"
  using assms by (simp add: parse_attr_def)

theorem unknown_attribute_ignored_witness:
  "parse_attr [''CRSH_ATTR_KEY_0'' \<mapsto> ''colour'', ''CRSH_ATTR_VALUE_0'' \<mapsto> ''red''] 0 default_Config
     = Some default_Config \<and>
   parse_attrs [''CRSH_ATTR_KEY_0'' \<mapsto> ''colour'', ''CRSH_ATTR_VALUE_0'' \<mapsto> ''red''] 0 (Suc 0)
     default_Config = Some default_Config"
  using unknown_attribute_ignored
    [of "[''CRSH_ATTR_KEY_0'' \<mapsto> ''colour'', ''CRSH_ATTR_VALUE_0'' \<mapsto> ''red'']" 0
        "''colour''" "''red''" default_Config 0]
  by (simp add: to_string.simps digit_char_def)

text \<open>
  The whole parser on an environment with one unknown attribute: it succeeds with the
  configuration it gives without any attribute.
\<close>

lemma parse_config_unknown_attribute:
  "parse_config [''CRSH_IPC_ENDPOINT'' \<mapsto> ''/tmp/s'', ''CRSH_URL'' \<mapsto> ''http://x'',
     ''CRSH_NUM_ATTR'' \<mapsto> ''1'', ''CRSH_ATTR_KEY_0'' \<mapsto> ''colour'',
     ''CRSH_ATTR_VALUE_0'' \<mapsto> ''red'']
   = Some (default_Config\<lparr>ipc_endpoint := ''/tmp/s'', url := ''http://x''\<rparr>)"
  by (simp add: parse_config_def getenv_nonempty_def parse_int_def is_digit_def digits_value_def
      digit_value_def parse_attr_def to_string.simps digit_char_def default_Config_def)

section \<open>What the write queue leaves alone\<close>

lemma flush_write_queue_frame [simp]:
  "config (flush_write_queue s) = config s"
  "active_requests (flush_write_queue s) = active_requests s"
  "multi_handles (flush_write_queue s) = multi_handles s"
  "easy_init_ok (flush_write_queue s) = easy_init_ok s"
  "easy_init_calls (flush_write_queue s) = easy_init_calls s"
  "easy_strerror (flush_write_queue s) = easy_strerror s"
  "uv_write_ok (flush_write_queue s) = uv_write_ok s"
  "stopped (flush_write_queue s) = stopped s"
  "idle_timer (flush_write_queue s) = idle_timer s"
  "client_closed (flush_write_queue s) = client_closed s"
  "invoked (flush_write_queue s) = invoked s"
  "read_buf (client (flush_write_queue s)) = read_buf (client s)"
  by (simp_all add: flush_write_queue_def uv_buf_init_def Let_def)

lemma send_response_frame [simp]:
  "config (send_response s b) = config s"
  "active_requests (send_response s b) = active_requests s"
  "multi_handles (send_response s b) = multi_handles s"
  "easy_init_ok (send_response s b) = easy_init_ok s"
  "easy_init_calls (send_response s b) = easy_init_calls s"
  "easy_strerror (send_response s b) = easy_strerror s"
  "uv_write_ok (send_response s b) = uv_write_ok s"
  "stopped (send_response s b) = stopped s"
  "idle_timer (send_response s b) = idle_timer s"
  "client_closed (send_response s b) = client_closed s"
  "invoked (send_response s b) = invoked s"
  "read_buf (client (send_response s b)) = read_buf (client s)"
  by (simp_all add: send_response_def)

lemma send_simple_response_frame [simp]:
  "config (send_simple_response s n r) = config s"
  "active_requests (send_simple_response s n r) = active_requests s"
  "multi_handles (send_simple_response s n r) = multi_handles s"
  "easy_init_ok (send_simple_response s n r) = easy_init_ok s"
  "easy_init_calls (send_simple_response s n r) = easy_init_calls s"
  "easy_strerror (send_simple_response s n r) = easy_strerror s"
  "uv_write_ok (send_simple_response s n r) = uv_write_ok s"
  "stopped (send_simple_response s n r) = stopped s"
  "idle_timer (send_simple_response s n r) = idle_timer s"
  "client_closed (send_simple_response s n r) = client_closed s"
  "invoked (send_simple_response s n r) = invoked s"
  "read_buf (client (send_simple_response s n r)) = read_buf (client s)"
  by (cases "result r"; simp add: send_simple_response_def Let_def)+

lemma note_call_frame [simp]:
  "config (note_call cb r s) = config s"
  "active_requests (note_call cb r s) = active_requests s"
  "multi_handles (note_call cb r s) = multi_handles s"
  "easy_init_ok (note_call cb r s) = easy_init_ok s"
  "easy_init_calls (note_call cb r s) = easy_init_calls s"
  "easy_strerror (note_call cb r s) = easy_strerror s"
  "uv_write_ok (note_call cb r s) = uv_write_ok s"
  "stopped (note_call cb r s) = stopped s"
  "idle_timer (note_call cb r s) = idle_timer s"
  "client_closed (note_call cb r s) = client_closed s"
  "client (note_call cb r s) = client s"
  "uv_writes (note_call cb r s) = uv_writes s"
  "writes_in_flight (note_call cb r s) = writes_in_flight s"
  "invoked (note_call cb r s) = invoked s @ [(cb, r)]"
  by (simp_all add: note_call_def)

lemma invoke_reply_frame:
  assumes "is_reply cb"
  shows "config (invoke cb r s) = config s"
    and "active_requests (invoke cb r s) = active_requests s"
    and "multi_handles (invoke cb r s) = multi_handles s"
    and "easy_init_ok (invoke cb r s) = easy_init_ok s"
    and "easy_init_calls (invoke cb r s) = easy_init_calls s"
    and "read_buf (client (invoke cb r s)) = read_buf (client s)"
    and "invoked (invoke cb r s) = invoked s @ [(cb, r)]"
  using assms by (auto simp: is_reply_def Let_def)

section \<open>The write queue is first in, first out\<close>

lemma wire_form_short [simp]: "length blob < 2 ^ 32 \<Longrightarrow> wire_form blob = blob"
  by (simp add: wire_form_def uv_buf_init_def)

lemma header_length: "length (write_u64_host_byte_order [STATUS_OK] n) = 9"
  by (simp add: write_u64_host_byte_order_def)

lemma simple_response_length: "length (simple_response response) < 2 ^ 32"
  by (auto simp: simple_response_def MAX_MSG_LEN_def min_def)

lemma wire_form_simple_response [simp]:
  "wire_form (simple_response response) = simple_response response"
  by (rule wire_form_short) (rule simple_response_length)

lemma wire_form_header [simp]:
  "wire_form (write_u64_host_byte_order [STATUS_OK] n) = write_u64_host_byte_order [STATUS_OK] n"
  by (rule wire_form_short) (simp add: header_length)

lemma flush_all_blobs [simp]: "all_blobs (flush_write_queue s) = all_blobs s"
  by (cases "write_queue (client s)")
    (auto simp: flush_write_queue_def all_blobs_def wire_form_def Let_def)

lemma flush_in_flight_ok: "in_flight_ok s \<Longrightarrow> in_flight_ok (flush_write_queue s)"
  by (auto simp: flush_write_queue_def in_flight_ok_def Let_def)

lemma send_response_all_blobs [simp]:
  "all_blobs (send_response s blob) = all_blobs s @ [wire_form blob]"
  by (simp add: send_response_def) (simp add: all_blobs_def)

lemma send_response_in_flight_ok: "in_flight_ok s \<Longrightarrow> in_flight_ok (send_response s blob)"
  unfolding send_response_def by (rule flush_in_flight_ok) (simp add: in_flight_ok_def)

lemma on_write_complete_all_blobs [simp]: "all_blobs (on_write_complete s) = all_blobs s"
  by (simp add: on_write_complete_def) (simp add: all_blobs_def)

lemma on_write_complete_in_flight_ok:
  assumes "in_flight_ok s"
  shows "in_flight_ok (on_write_complete s)"
proof (cases "writes_in_flight s = 0")
  case True
  with assms show ?thesis by (simp add: on_write_complete_def)
next
  case False
  with assms have "in_flight_ok (s\<lparr>client := (client s)\<lparr>writing := False\<rparr>,
      writes_in_flight := writes_in_flight s - 1\<rparr>)"
    by (auto simp: in_flight_ok_def split: if_splits)
  then show ?thesis using False by (simp add: on_write_complete_def flush_in_flight_ok)
qed

lemma note_call_all_blobs [simp]: "all_blobs (note_call cb r s) = all_blobs s"
  by (simp add: note_call_def all_blobs_def)

lemma note_call_in_flight_ok [simp]: "in_flight_ok (note_call cb r s) = in_flight_ok s"
  by (simp add: note_call_def in_flight_ok_def)

lemma send_simple_response_eq:
  "send_simple_response s name response = send_response s (simple_response response)"
  by (cases "result response") (simp_all add: send_simple_response_def simple_response_def Let_def)

lemma send_simple_response_all_blobs:
  "all_blobs (send_simple_response s name response) = all_blobs s @ [simple_response response]"
  by (simp add: send_simple_response_eq)

lemma send_simple_response_in_flight_ok:
  "in_flight_ok s \<Longrightarrow> in_flight_ok (send_simple_response s name response)"
  by (simp add: send_simple_response_eq send_response_in_flight_ok)

lemma writer_step_all_blobs:
  "all_blobs (writer_step s e) = all_blobs s @ map wire_form (enqueued e)"
  by (cases e)
    (auto simp: Let_def send_simple_response_all_blobs)

lemma writer_step_in_flight_ok: "in_flight_ok s \<Longrightarrow> in_flight_ok (writer_step s e)"
  by (cases e)
    (auto simp: Let_def send_response_in_flight_ok on_write_complete_in_flight_ok
      send_simple_response_in_flight_ok)

text \<open>
  C6 (as amended). From a state in which the flag agrees with the writes in flight, and over
  every sequence of enqueued blobs, write completions and calls of the reply lambdas: the
  buffers passed to \<^verbatim>\<open>uv_write\<close> followed by those of the queue are the blobs enqueued, in
  the order of their enqueueing, each one whole when it is shorter than \<open>2 ^ 32\<close> bytes; at
  most one write is in flight; and a GET reply that is OK enqueues its 9-byte header blob
  (status and length) directly before its body blob. A reply is enqueued when its reply
  lambda is called, that is when its HTTP operation completes.
\<close>

theorem write_queue_fifo:
  assumes "in_flight_ok s"
  shows "all_blobs (foldl writer_step s es) = all_blobs s @ map wire_form (concat (map enqueued es)) \<and>
         in_flight_ok (foldl writer_step s es) \<and>
         writes_in_flight (foldl writer_step s es) \<le> 1 \<and>
         (result response = OK \<longrightarrow>
            all_blobs (invoke GetReply response s) =
              all_blobs s @ [write_u64_host_byte_order [STATUS_OK] (length (data response)),
                             wire_form (data response)] \<and>
            length (write_u64_host_byte_order [STATUS_OK] (length (data response))) = 9) \<and>
         (length blob < 2 ^ 32 \<longrightarrow> wire_form blob = blob)"
proof -
  have run: "in_flight_ok t \<Longrightarrow>
      all_blobs (foldl writer_step t es) = all_blobs t @ map wire_form (concat (map enqueued es)) \<and>
      in_flight_ok (foldl writer_step t es)" for t
  proof (induction es arbitrary: t)
    case Nil
    then show ?case by simp
  next
    case (Cons e es)
    from Cons.prems have "in_flight_ok (writer_step t e)" by (rule writer_step_in_flight_ok)
    from Cons.IH [OF this] show ?case by (simp add: writer_step_all_blobs)
  qed
  from run [OF assms]
  have r: "all_blobs (foldl writer_step s es) = all_blobs s @ map wire_form (concat (map enqueued es))"
    and i: "in_flight_ok (foldl writer_step s es)" by auto
  from i have le: "writes_in_flight (foldl writer_step s es) \<le> 1"
    by (simp add: in_flight_ok_def)
  have g: "result response = OK \<longrightarrow>
            all_blobs (invoke GetReply response s) =
              all_blobs s @ [write_u64_host_byte_order [STATUS_OK] (length (data response)),
                             wire_form (data response)]"
    using writer_step_all_blobs [of s "Get_reply response"] by simp
  from r i le g show ?thesis by (simp add: header_length)
qed

theorem write_queue_fifo_witness:
  "in_flight_ok (initial_server example_config) \<and>
   uv_writes (foldl writer_step (initial_server example_config)
      [Get_reply \<lparr>result = OK, error = [], data = [88]\<rparr>, Remove_reply \<lparr>result = NOOP, error = [], data = []\<rparr>,
       Write_done, Write_done])
     = [([0, 1, 0, 0, 0, 0, 0, 0, 0], True), ([88], True), ([STATUS_NOOP], True)] \<and>
   all_blobs (foldl writer_step (initial_server example_config)
      [Get_reply \<lparr>result = OK, error = [], data = [88]\<rparr>, Remove_reply \<lparr>result = NOOP, error = [], data = []\<rparr>,
       Write_done, Write_done])
     = [[0, 1, 0, 0, 0, 0, 0, 0, 0], [88], [STATUS_NOOP]] \<and>
   wire_form [88] = [88]"
  using write_queue_fifo [of "initial_server example_config"
      "[Get_reply \<lparr>result = OK, error = [], data = [88]\<rparr>,
        Remove_reply \<lparr>result = NOOP, error = [], data = []\<rparr>, Write_done, Write_done]"
      "\<lparr>result = OK, error = [], data = [88]\<rparr>" "[88]"]
  by (simp add: in_flight_ok_def all_blobs_def initial_server_def note_call_def send_response_def
      flush_write_queue_def on_write_complete_def write_u64_host_byte_order_def STATUS_OK_def
      send_simple_response_def simple_response_def wire_form_def uv_buf_init_def Let_def upt_rec)

section \<open>Completion of a request\<close>

lemma complete_registered:
  assumes "map_of (active_requests s) h = Some request"
  shows "complete s \<lparr>msg = CURLMSG_DONE, easy_handle = h, data_result = res, response_code = code\<rparr> =
     (case classify request res code (easy_strerror s) of
        (http_result, err, req) \<Rightarrow>
          invoke (callback req) \<lparr>result = http_result, error = err, data = response_data req\<rparr>
            (erase_request s h))"
  using assms by (simp add: complete_def)

lemma get_example:
  "get (initial_server example_config) ''abcdef'' GetReply =
     (initial_server example_config)
       \<lparr>active_requests := [(0, make_request GET ''https://c.example/ab/cdef'' [] GetReply)],
        multi_handles := [0], easy_init_calls := 1\<rparr>"
  by (simp add: get_def create_easy_handle_def initial_server_def example_config_def default_Config_def
      add_request_def build_url_def substr_def substr_from_def header_lines_def make_request_def)

text \<open>
  C2 (as amended). A GET that completes without a transport error resolves OK with the
  captured body on status 200 only, NOOP with an empty body on 404, and ERROR with the text
  \<open>HTTP <code>\<close> on every other status, the other 2xx statuses included. The response goes
  to the request's callback after the request has left the registry.
\<close>

theorem get_completion:
  assumes "map_of (active_requests s) h = Some request" and "operation request = GET"
  shows "complete s \<lparr>msg = CURLMSG_DONE, easy_handle = h, data_result = CURLE_OK, response_code = code\<rparr> =
     invoke (callback request)
       (if code = 200 then \<lparr>result = OK, error = [], data = response_data request\<rparr>
        else if code = 404 then \<lparr>result = NOOP, error = [], data = []\<rparr>
        else \<lparr>result = ERROR, error = ''HTTP '' @ to_string_long code, data = response_data request\<rparr>)
       (erase_request s h)"
  using assms by (simp add: complete_registered classify_def)

text \<open>
  C2 as the spec states it fails: a GET answered 204 resolves ERROR, not OK.
\<close>

theorem get_204_is_error:
  "invoked (complete (get (initial_server example_config) ''abcdef'' GetReply)
      \<lparr>msg = CURLMSG_DONE, easy_handle = 0, data_result = CURLE_OK, response_code = 204\<rparr>)
    = [(GetReply, \<lparr>result = ERROR, error = ''HTTP 204'', data = []\<rparr>)]"
  unfolding get_example
  by (simp add: complete_def classify_def make_request_def initial_server_def CURLE_OK_def
      to_string_long_def to_string.simps digit_char_def erase_request_def)

theorem get_completion_witness:
  "invoked (complete
      ((get (initial_server example_config) ''abcdef'' GetReply)
         \<lparr>active_requests :=
            [(0, write_callback (make_request GET ''https://c.example/ab/cdef'' [] GetReply) [88])]\<rparr>)
      \<lparr>msg = CURLMSG_DONE, easy_handle = 0, data_result = CURLE_OK, response_code = 200\<rparr>)
    = [(GetReply, \<lparr>result = OK, error = [], data = [88]\<rparr>)]"
  using get_completion
    [of "(get (initial_server example_config) ''abcdef'' GetReply)
         \<lparr>active_requests :=
            [(0, write_callback (make_request GET ''https://c.example/ab/cdef'' [] GetReply) [88])]\<rparr>"
        0 "write_callback (make_request GET ''https://c.example/ab/cdef'' [] GetReply) [88]" 200]
  unfolding get_example
  by (simp add: make_request_def write_callback_def initial_server_def erase_request_def)

section \<open>Every continuation is held or called\<close>

lemma update_fresh: "h \<notin> fst ` set al \<Longrightarrow> AList.update h v al = al @ [(h, v)]"
  by (induction al) auto

lemma filter_delete_distinct:
  "distinct (map fst al) \<Longrightarrow> map_of al h = Some v \<Longrightarrow>
   length (filter P (AList.delete h al)) + (if P (h, v) then 1 else 0) = length (filter P al)"
proof (induction al)
  case Nil
  then show ?case by simp
next
  case (Cons p al)
  show ?case
  proof (cases "fst p = h")
    case True
    with Cons.prems have "h \<notin> fst ` set al" and "snd p = v" by auto
    then have "AList.delete h al = al" by (simp add: delete_id image_iff)
    with True \<open>snd p = v\<close> show ?thesis by (cases p) auto
  next
    case False
    with Cons show ?thesis by (cases p) auto
  qed
qed

lemma reply_of_is_reply: "is_reply (reply_of cb)"
  by (induction cb) (auto simp: is_reply_def)

lemma is_reply_not_head: "is_reply k \<Longrightarrow> k \<noteq> HeadCheck a b c"
  by (auto simp: is_reply_def)

lemma is_reply_reply_of: "is_reply k \<Longrightarrow> reply_of k = k"
  by (auto simp: is_reply_def)

lemma pending_calls_frame:
  "active_requests s' = active_requests s \<Longrightarrow> pending k s' = pending k s"
  "invoked s' = invoked s \<Longrightarrow> calls k s' = calls k s"
  "active_requests s' = active_requests s \<Longrightarrow> easy_init_calls s' = easy_init_calls s \<Longrightarrow>
     fresh_handles s' = fresh_handles s"
  by (simp_all add: pending_def calls_def fresh_handles_def)

lemma calls_note_call: "calls k (note_call cb r s) = calls k s + (if cb = k then 1 else 0)"
  by (simp add: calls_def)

lemma add_request_fresh:
  assumes "fresh_handles s"
  shows "fresh_handles (add_request (s\<lparr>easy_init_calls := Suc (easy_init_calls s)\<rparr>) (easy_init_calls s) req)"
    and "pending k (add_request (s\<lparr>easy_init_calls := Suc (easy_init_calls s)\<rparr>) (easy_init_calls s) req) =
           pending k s + (if reply_of (callback req) = k then 1 else 0)"
    and "calls k (add_request (s\<lparr>easy_init_calls := Suc (easy_init_calls s)\<rparr>) (easy_init_calls s) req) = calls k s"
proof -
  let ?n = "easy_init_calls s"
  from assms have notin: "?n \<notin> fst ` set (active_requests s)"
    by (auto simp: fresh_handles_def list_all_iff)
  then have upd: "AList.update ?n req (active_requests s) = active_requests s @ [(?n, req)]"
    by (rule update_fresh)
  have "\<And>a b. (a, b) \<in> set (active_requests s) \<Longrightarrow> a < Suc ?n"
    using assms by (fastforce simp: fresh_handles_def list_all_iff)
  then show "fresh_handles (add_request (s\<lparr>easy_init_calls := Suc ?n\<rparr>) ?n req)"
    using assms notin by (auto simp: add_request_def upd fresh_handles_def list_all_iff)
  show "pending k (add_request (s\<lparr>easy_init_calls := Suc ?n\<rparr>) ?n req) =
           pending k s + (if reply_of (callback req) = k then 1 else 0)"
    by (simp add: add_request_def upd pending_def)
  show "calls k (add_request (s\<lparr>easy_init_calls := Suc ?n\<rparr>) ?n req) = calls k s"
    by (simp add: add_request_def calls_def)
qed

lemma bump_fresh:
  "fresh_handles s \<Longrightarrow> fresh_handles (s\<lparr>easy_init_calls := Suc (easy_init_calls s)\<rparr>)"
  by (auto simp: fresh_handles_def list_all_iff)

lemma conserved_trans:
  "same_units s s1 \<Longrightarrow> conserved cb s1 s' \<Longrightarrow> reply_of cb' = reply_of cb \<Longrightarrow> conserved cb' s s'"
  by (simp add: conserved_def same_units_def)

lemma conserved_reply:
  assumes "is_reply cb" and "fresh_handles s"
  shows "conserved cb s (invoke cb r s)"
proof -
  have "pending k (invoke cb r s) = pending k s" for k
    using assms(1) by (simp add: pending_def invoke_reply_frame)
  moreover have "calls k (invoke cb r s) = calls k s + (if cb = k then 1 else 0)" for k
    using assms(1) by (simp add: calls_def invoke_reply_frame)
  moreover have "fresh_handles (invoke cb r s)"
    using assms by (simp add: fresh_handles_def invoke_reply_frame)
  ultimately show ?thesis
    using assms(1) by (simp add: conserved_def is_reply_reply_of)
qed

lemma same_units_bump: "same_units s (s\<lparr>easy_init_calls := Suc (easy_init_calls s)\<rparr>)"
  by (simp add: same_units_def pending_def calls_def)

lemma same_units_note_head:
  "same_units s (note_call (HeadCheck hex_key payload cb) response s)"
  unfolding same_units_def
proof (intro allI impI)
  fix k assume "is_reply k"
  then have "HeadCheck hex_key payload cb \<noteq> k" by (auto simp: is_reply_def)
  then show "pending k (note_call (HeadCheck hex_key payload cb) response s) +
      calls k (note_call (HeadCheck hex_key payload cb) response s) = pending k s + calls k s"
    by (simp add: calls_note_call pending_def)
qed

lemma fresh_note_call: "fresh_handles (note_call cb r s) = fresh_handles s"
  by (simp add: fresh_handles_def)

lemma do_put_ok:
  assumes "easy_init_ok s (easy_init_calls s)"
  shows "do_put s hex_key payload cb =
        add_request (s\<lparr>easy_init_calls := Suc (easy_init_calls s)\<rparr>) (easy_init_calls s)
          ((make_request PUT (build_url (config s) hex_key) payload cb)
             \<lparr>req_headers := header_lines (config s)\<rparr>)"
  using assms by (simp add: create_easy_handle_def Let_def)

lemma create_easy_handle_fails:
  assumes "\<not> easy_init_ok s (easy_init_calls s)"
  shows "create_easy_handle s request =
           (None, request, s\<lparr>easy_init_calls := Suc (easy_init_calls s)\<rparr>)"
  using assms by (simp add: create_easy_handle_def Let_def)

lemma do_put_fails:
  assumes "\<not> easy_init_ok s (easy_init_calls s)"
  shows "do_put s hex_key payload cb =
        invoke cb handle_error (s\<lparr>easy_init_calls := Suc (easy_init_calls s)\<rparr>)"
  by (simp add: create_easy_handle_fails [OF assms])

lemma invoke_head:
  "invoke (HeadCheck hex_key payload cb) response s0 =
     (if result response = NOOP
      then do_put (note_call (HeadCheck hex_key payload cb) response s0) hex_key payload cb
      else if result response = OK
      then invoke cb \<lparr>result = NOOP, error = [], data = []\<rparr>
             (note_call (HeadCheck hex_key payload cb) response s0)
      else invoke cb response (note_call (HeadCheck hex_key payload cb) response s0))"
  by (simp add: Let_def)

lemma conserved_do_put_invoke:
  shows "fresh_handles s \<longrightarrow> conserved cb s (do_put s hex_key payload cb)"
    and "fresh_handles t \<longrightarrow> conserved cb' t (invoke cb' response t)"
proof (induction s hex_key payload cb and cb' response t rule: do_put_invoke.induct)
  case (1 s hex_key payload cb)
  show ?case
  proof (cases "easy_init_ok s (easy_init_calls s)")
    case True
    show ?thesis
      unfolding do_put_ok [OF True] conserved_def
      by (simp add: add_request_fresh make_request_def)
  next
    case False
    note c = create_easy_handle_fails [OF False, of "make_request PUT (build_url (config s) hex_key) payload cb"]
    from 1 [OF c [symmetric] refl refl]
    have ih: "fresh_handles (s\<lparr>easy_init_calls := Suc (easy_init_calls s)\<rparr>) \<longrightarrow>
      conserved cb (s\<lparr>easy_init_calls := Suc (easy_init_calls s)\<rparr>)
        (invoke cb handle_error (s\<lparr>easy_init_calls := Suc (easy_init_calls s)\<rparr>))" .
    show ?thesis
      unfolding do_put_fails [OF False]
      using ih bump_fresh [of s] conserved_trans [OF same_units_bump, of cb s _ cb]
      by blast
  qed
next
  case (2 response s0)
  show ?case using conserved_reply [of GetReply s0 response] by (simp add: is_reply_def del: invoke.simps)
next
  case (3 response s0)
  show ?case using conserved_reply [of PutReply s0 response] by (simp add: is_reply_def del: invoke.simps)
next
  case (4 response s0)
  show ?case using conserved_reply [of RemoveReply s0 response] by (simp add: is_reply_def del: invoke.simps)
next
  case (5 hex_key payload cb response s0)
  let ?s = "note_call (HeadCheck hex_key payload cb) response s0"
  have su: "same_units s0 ?s" by (rule same_units_note_head)
  have ro: "reply_of (HeadCheck hex_key payload cb) = reply_of cb" by simp
  show ?case
  proof (intro impI)
    assume f0: "fresh_handles s0"
    then have fr: "fresh_handles ?s" by (simp add: fresh_note_call)
    show "conserved (HeadCheck hex_key payload cb) s0 (invoke (HeadCheck hex_key payload cb) response s0)"
    proof (cases "result response = NOOP")
      case True
      from 5(1) [OF refl True] fr have "conserved cb ?s (do_put ?s hex_key payload cb)" by blast
      from conserved_trans [OF su this ro] True show ?thesis
        by (simp add: invoke_head del: invoke.simps)
    next
      case False
      show ?thesis
      proof (cases "result response = OK")
        case True
        from 5(2) [OF refl False True] fr
        have "conserved cb ?s (invoke cb \<lparr>result = NOOP, error = [], data = []\<rparr> ?s)" by blast
        from conserved_trans [OF su this ro] False True show ?thesis
          by (simp add: invoke_head del: invoke.simps)
      next
        case nok: False
        from 5(3) [OF refl False nok] fr
        have "conserved cb ?s (invoke cb response ?s)" by blast
        from conserved_trans [OF su this ro] False nok show ?thesis
          by (simp add: invoke_head del: invoke.simps)
      qed
    qed
  qed
qed

lemma classify_callback:
  "classify request res code se = (r, e, req) \<Longrightarrow> callback req = callback request"
  by (auto simp: classify_def split: if_splits HttpOperation.splits)

lemma erase_request_units:
  assumes "fresh_handles s" and "map_of (active_requests s) h = Some request"
  shows "fresh_handles (erase_request s h)"
    and "pending k (erase_request s h) + (if reply_of (callback request) = k then 1 else 0) = pending k s"
    and "calls k (erase_request s h) = calls k s"
proof -
  from assms(1) have d: "distinct (map fst (active_requests s))"
    by (simp add: fresh_handles_def)
  have "distinct (map fst (AList.delete h (active_requests s)))"
    using d by (rule distinct_delete)
  moreover have "set (AList.delete h (active_requests s)) \<subseteq> set (active_requests s)"
    by (auto simp: AList.delete_eq)
  ultimately show "fresh_handles (erase_request s h)"
    using assms(1) by (auto simp: fresh_handles_def erase_request_def list_all_iff)
  show "pending k (erase_request s h) + (if reply_of (callback request) = k then 1 else 0) = pending k s"
    using filter_delete_distinct [OF d assms(2), of "\<lambda>(h, r). reply_of (callback r) = k"]
    by (simp add: pending_def erase_request_def)
  show "calls k (erase_request s h) = calls k s"
    by (simp add: calls_def erase_request_def)
qed

lemma complete_units:
  assumes "fresh_handles s"
  shows "fresh_handles (complete s m) \<and> same_units s (complete s m)"
proof (cases "msg m = CURLMSG_DONE")
  case False
  with assms show ?thesis by (simp add: complete_def same_units_def)
next
  case True
  show ?thesis
  proof (cases "map_of (active_requests s) (easy_handle m)")
    case None
    with assms show ?thesis by (simp add: complete_def same_units_def)
  next
    case (Some request)
    obtain r e req where c: "classify request (data_result m) (response_code m) (easy_strerror s) = (r, e, req)"
      by (cases "classify request (data_result m) (response_code m) (easy_strerror s)") auto
    have cb: "callback req = callback request" using c by (rule classify_callback)
    let ?s1 = "erase_request s (easy_handle m)"
    let ?resp = "\<lparr>result = r, error = e, data = response_data req\<rparr>"
    have eq: "complete s m = invoke (callback request) ?resp ?s1"
      using True Some c cb by (simp add: complete_def)
    note er = erase_request_units [OF assms Some]
    from conserved_do_put_invoke(2) [of ?s1 "callback request" ?resp] er(1)
    have co: "conserved (callback request) ?s1 (invoke (callback request) ?resp ?s1)" by blast
    show ?thesis
      unfolding eq same_units_def
    proof (intro conjI allI impI)
      show "fresh_handles (invoke (callback request) ?resp ?s1)"
        using co by (simp add: conserved_def)
    next
      fix k assume k: "is_reply k"
      from co k have "pending k (invoke (callback request) ?resp ?s1) + calls k (invoke (callback request) ?resp ?s1)
          = pending k ?s1 + calls k ?s1 + (if reply_of (callback request) = k then 1 else 0)"
        by (simp add: conserved_def)
      with er(2) [of k] er(3) [of k]
      show "pending k (invoke (callback request) ?resp ?s1) + calls k (invoke (callback request) ?resp ?s1)
          = pending k s + calls k s"
        by simp
    qed
  qed
qed

lemma check_multi_info_units:
  "fresh_handles s \<Longrightarrow> fresh_handles (check_multi_info s ms) \<and> same_units s (check_multi_info s ms)"
proof (induction ms arbitrary: s)
  case Nil
  then show ?case by (simp add: same_units_def)
next
  case (Cons m ms)
  from complete_units [OF Cons.prems, of m]
  have f: "fresh_handles (complete s m)" and u: "same_units s (complete s m)" by auto
  from Cons.IH [OF f] u show ?case by (auto simp: same_units_def)
qed

lemma schedule_ok:
  assumes "easy_init_ok s (easy_init_calls s)"
  shows "get s hex_key cb =
           add_request (s\<lparr>easy_init_calls := Suc (easy_init_calls s)\<rparr>) (easy_init_calls s)
             ((make_request GET (build_url (config s) hex_key) [] cb)
                \<lparr>req_headers := header_lines (config s)\<rparr>)"
    and "remove_op s hex_key cb =
           add_request (s\<lparr>easy_init_calls := Suc (easy_init_calls s)\<rparr>) (easy_init_calls s)
             ((make_request DELETE (build_url (config s) hex_key) [] cb)
                \<lparr>req_headers := header_lines (config s)\<rparr>)"
    and "put s hex_key payload False cb =
           add_request (s\<lparr>easy_init_calls := Suc (easy_init_calls s)\<rparr>) (easy_init_calls s)
             ((make_request HEAD (build_url (config s) hex_key) [] cb)
                \<lparr>req_headers := header_lines (config s), callback := HeadCheck hex_key payload cb\<rparr>)"
    and "put s hex_key payload True cb =
           add_request (s\<lparr>easy_init_calls := Suc (easy_init_calls s)\<rparr>) (easy_init_calls s)
             ((make_request PUT (build_url (config s) hex_key) payload cb)
                \<lparr>req_headers := header_lines (config s)\<rparr>)"
  using assms do_put_ok [OF assms, of hex_key payload cb]
  by (simp_all add: get_def remove_op_def put_def create_easy_handle_def Let_def)

lemma schedule_fails:
  assumes "\<not> easy_init_ok s (easy_init_calls s)"
  shows "get s hex_key cb = invoke cb handle_error (s\<lparr>easy_init_calls := Suc (easy_init_calls s)\<rparr>)"
    and "remove_op s hex_key cb = invoke cb handle_error (s\<lparr>easy_init_calls := Suc (easy_init_calls s)\<rparr>)"
    and "put s hex_key payload overwrite cb =
           invoke cb handle_error (s\<lparr>easy_init_calls := Suc (easy_init_calls s)\<rparr>)"
  using assms
  by (simp_all add: get_def remove_op_def put_def create_easy_handle_fails do_put_fails del: do_put.simps)

lemma schedule_conserved:
  assumes "fresh_handles s"
  shows "conserved cb s (get s hex_key cb)"
    and "conserved cb s (remove_op s hex_key cb)"
    and "conserved cb s (put s hex_key payload overwrite cb)"
proof -
  let ?s1 = "s\<lparr>easy_init_calls := Suc (easy_init_calls s)\<rparr>"
  have fail: "conserved cb s (invoke cb handle_error ?s1)"
    using conserved_do_put_invoke(2) [of ?s1 cb handle_error] bump_fresh [OF assms]
      conserved_trans [OF same_units_bump, of cb s _ cb]
    by blast
  have ok: "reply_of (callback req) = reply_of cb \<Longrightarrow>
      conserved cb s (add_request ?s1 (easy_init_calls s) req)" for req
    unfolding conserved_def using add_request_fresh [OF assms, where req = req] by simp
  show "conserved cb s (get s hex_key cb)"
    by (cases "easy_init_ok s (easy_init_calls s)")
      (simp_all add: schedule_ok schedule_fails fail ok make_request_def)
  show "conserved cb s (remove_op s hex_key cb)"
    by (cases "easy_init_ok s (easy_init_calls s)")
      (simp_all add: schedule_ok schedule_fails fail ok make_request_def)
  show "conserved cb s (put s hex_key payload overwrite cb)"
    by (cases "easy_init_ok s (easy_init_calls s)"; cases overwrite)
      (simp_all add: schedule_ok schedule_fails fail ok make_request_def)
qed

lemma client_step_units:
  assumes "fresh_handles s" and "is_reply k"
  shows "fresh_handles (client_step s e) \<and>
         pending k (client_step s e) + calls k (client_step s e) =
           pending k s + calls k s + scheduled k e"
proof (cases e)
  case (Get hex_key cb)
  with schedule_conserved(1) [OF assms(1), of cb hex_key] assms(2) show ?thesis
    by (simp add: conserved_def)
next
  case (Put hex_key payload overwrite cb)
  with schedule_conserved(3) [OF assms(1), of cb hex_key payload overwrite] assms(2) show ?thesis
    by (simp add: conserved_def)
next
  case (Remove hex_key cb)
  with schedule_conserved(2) [OF assms(1), of cb hex_key] assms(2) show ?thesis
    by (simp add: conserved_def)
next
  case (Completions ms)
  with check_multi_info_units [OF assms(1), of ms] assms(2) show ?thesis
    by (simp add: same_units_def)
qed

lemma client_run_units:
  assumes "fresh_handles s" and "is_reply k"
  shows "fresh_handles (foldl client_step s es) \<and>
         pending k (foldl client_step s es) + calls k (foldl client_step s es) =
           pending k s + calls k s + sum_list (map (scheduled k) es)"
  using assms(1)
proof (induction es arbitrary: s)
  case Nil
  then show ?case by simp
next
  case (Cons e es)
  from client_step_units [OF Cons.prems assms(2), of e]
  have f: "fresh_handles (client_step s e)"
    and u: "pending k (client_step s e) + calls k (client_step s e) =
           pending k s + calls k s + scheduled k e" by auto
  from Cons.IH [OF f] u show ?case by simp
qed

lemma schedule_ok_invoked:
  assumes "easy_init_ok s (easy_init_calls s)"
  shows "invoked (get s hex_key cb) = invoked s"
    and "invoked (put s hex_key payload overwrite cb) = invoked s"
    and "invoked (remove_op s hex_key cb) = invoked s"
  by (cases overwrite; simp add: schedule_ok [OF assms] add_request_def)+

text \<open>
  C4 (as amended). Over every sequence of scheduling calls and drains of the completion queue,
  the pending requests that hold a reply lambda and the calls of it together count the
  operations scheduled with it: each scheduled operation accounts for one call, which is made
  at most once, and has been made when no request of the operation is pending any more.
  When \<^verbatim>\<open>curl_easy_init\<close> returns a handle, the scheduling call itself calls no callback;
  the call comes from \<^verbatim>\<open>check_multi_info\<close>, after the request has left the registry.
  When it returns none, the scheduling call calls the continuation itself, once, with the
  error \<open>Failed to create curl handle\<close>.
\<close>

theorem continuation_once:
  "(fresh_handles s \<and> is_reply k \<longrightarrow>
      pending k (foldl client_step s es) + calls k (foldl client_step s es) =
        pending k s + calls k s + sum_list (map (scheduled k) es)) \<and>
   (easy_init_ok s (easy_init_calls s) \<longrightarrow>
      invoked (get s hex_key cb) = invoked s \<and>
      invoked (put s hex_key payload overwrite cb) = invoked s \<and>
      invoked (remove_op s hex_key cb) = invoked s) \<and>
   (\<not> easy_init_ok s (easy_init_calls s) \<longrightarrow>
      get s hex_key cb = invoke cb handle_error (s\<lparr>easy_init_calls := Suc (easy_init_calls s)\<rparr>) \<and>
      put s hex_key payload overwrite cb =
        invoke cb handle_error (s\<lparr>easy_init_calls := Suc (easy_init_calls s)\<rparr>) \<and>
      remove_op s hex_key cb =
        invoke cb handle_error (s\<lparr>easy_init_calls := Suc (easy_init_calls s)\<rparr>)) \<and>
   (map_of (active_requests s) h = Some request \<longrightarrow>
      complete s \<lparr>msg = CURLMSG_DONE, easy_handle = h, data_result = res, response_code = code\<rparr> =
        (case classify request res code (easy_strerror s) of
           (http_result, err, req) \<Rightarrow>
             invoke (callback req) \<lparr>result = http_result, error = err, data = response_data req\<rparr>
               (erase_request s h)))"
proof (intro conjI impI)
  assume "fresh_handles s \<and> is_reply k"
  then show "pending k (foldl client_step s es) + calls k (foldl client_step s es) =
        pending k s + calls k s + sum_list (map (scheduled k) es)"
    using client_run_units [of s k es] by simp
next
  assume ok: "easy_init_ok s (easy_init_calls s)"
  show "invoked (get s hex_key cb) = invoked s" by (rule schedule_ok_invoked(1) [OF ok])
  show "invoked (put s hex_key payload overwrite cb) = invoked s"
    by (rule schedule_ok_invoked(2) [OF ok])
  show "invoked (remove_op s hex_key cb) = invoked s" by (rule schedule_ok_invoked(3) [OF ok])
next
  assume no: "\<not> easy_init_ok s (easy_init_calls s)"
  show "get s hex_key cb = invoke cb handle_error (s\<lparr>easy_init_calls := Suc (easy_init_calls s)\<rparr>)"
    by (rule schedule_fails(1) [OF no])
  show "put s hex_key payload overwrite cb =
        invoke cb handle_error (s\<lparr>easy_init_calls := Suc (easy_init_calls s)\<rparr>)"
    by (rule schedule_fails(3) [OF no])
  show "remove_op s hex_key cb =
        invoke cb handle_error (s\<lparr>easy_init_calls := Suc (easy_init_calls s)\<rparr>)"
    by (rule schedule_fails(2) [OF no])
next
  assume "map_of (active_requests s) h = Some request"
  then show "complete s \<lparr>msg = CURLMSG_DONE, easy_handle = h, data_result = res, response_code = code\<rparr> =
        (case classify request res code (easy_strerror s) of
           (http_result, err, req) \<Rightarrow>
             invoke (callback req) \<lparr>result = http_result, error = err, data = response_data req\<rparr>
               (erase_request s h))"
    by (rule complete_registered)
qed

text \<open>
  C4 as the spec states it fails: when no handle can be created, \<^verbatim>\<open>StorageClient::get\<close>
  has called the continuation by the time it returns.
\<close>

theorem get_without_handle_calls_back:
  "invoked (get ((initial_server example_config)\<lparr>easy_init_ok := (\<lambda>_. False)\<rparr>) ''abcdef'' GetReply)
     = [(GetReply, \<lparr>result = ERROR, error = ''Failed to create curl handle'', data = []\<rparr>)]"
  by (simp add: get_def create_easy_handle_def initial_server_def handle_error_def Let_def)

theorem continuation_once_witness:
  "fresh_handles (initial_server example_config) \<and> is_reply GetReply \<and>
   pending GetReply (foldl client_step (initial_server example_config)
      [Get ''abcdef'' GetReply,
       Completions [\<lparr>msg = CURLMSG_DONE, easy_handle = 0, data_result = CURLE_OK, response_code = 200\<rparr>]]) = 0 \<and>
   calls GetReply (foldl client_step (initial_server example_config)
      [Get ''abcdef'' GetReply,
       Completions [\<lparr>msg = CURLMSG_DONE, easy_handle = 0, data_result = CURLE_OK, response_code = 200\<rparr>]]) = 1 \<and>
   invoked (get (initial_server example_config) ''abcdef'' GetReply) = [] \<and>
   invoked (get ((initial_server example_config)\<lparr>easy_init_ok := (\<lambda>_. False)\<rparr>) ''abcdef'' GetReply)
     = [(GetReply, handle_error)] \<and>
   map_of (active_requests (get (initial_server example_config) ''abcdef'' GetReply)) 0
     = Some (make_request GET ''https://c.example/ab/cdef'' [] GetReply) \<and>
   invoked (complete (get (initial_server example_config) ''abcdef'' GetReply)
      \<lparr>msg = CURLMSG_DONE, easy_handle = 0, data_result = CURLE_OK, response_code = 200\<rparr>)
     = [(GetReply, \<lparr>result = OK, error = [], data = []\<rparr>)]"
  using
    continuation_once [of "initial_server example_config" GetReply
      "[Get ''abcdef'' GetReply,
        Completions [\<lparr>msg = CURLMSG_DONE, easy_handle = 0, data_result = CURLE_OK, response_code = 200\<rparr>]]"
      "''abcdef''" GetReply "[]" False 0
      "make_request GET ''https://c.example/ab/cdef'' [] GetReply" CURLE_OK 200]
    continuation_once [of "(initial_server example_config)\<lparr>easy_init_ok := (\<lambda>_. False)\<rparr>" GetReply
      "[]" "''abcdef''" GetReply "[]" False 0
      "make_request GET ''https://c.example/ab/cdef'' [] GetReply" CURLE_OK 200]
    continuation_once [of "get (initial_server example_config) ''abcdef'' GetReply" GetReply
      "[]" "''abcdef''" GetReply "[]" False 0
      "make_request GET ''https://c.example/ab/cdef'' [] GetReply" CURLE_OK 200]
  unfolding foldl.simps client_step.simps get_example
  by (simp add: fresh_handles_def is_reply_def pending_def calls_def initial_server_def
      complete_def classify_def make_request_def erase_request_def CURLE_OK_def note_call_def
      send_response_def flush_write_queue_def uv_buf_init_def Let_def get_def create_easy_handle_def
      handle_error_def send_simple_response_def add_request_def header_lines_def)

section \<open>The conditional PUT\<close>

lemma classify_head:
  "operation request = HEAD \<Longrightarrow> classify request res code se = (r, e, req) \<Longrightarrow> req = request"
  by (auto simp: classify_def split: if_splits)

lemma classify_put:
  "operation request = PUT \<Longrightarrow> classify request res code se = (r, e, req) \<Longrightarrow> req = request"
  by (auto simp: classify_def split: if_splits)

lemma head_completion:
  assumes "map_of (active_requests t) h = Some request"
    and "operation request = HEAD"
    and "callback request = HeadCheck hex_key payload cb"
  shows "complete t \<lparr>msg = CURLMSG_DONE, easy_handle = h, data_result = res, response_code = code\<rparr> =
     (case classify request res code (easy_strerror t) of
        (r, e, req) \<Rightarrow>
          (let t' = note_call (HeadCheck hex_key payload cb)
                      \<lparr>result = r, error = e, data = response_data request\<rparr> (erase_request t h)
           in case r of
                OK \<Rightarrow> invoke cb \<lparr>result = NOOP, error = [], data = []\<rparr> t'
              | NOOP \<Rightarrow> do_put t' hex_key payload cb
              | ERROR \<Rightarrow> invoke cb \<lparr>result = ERROR, error = e, data = response_data request\<rparr> t'))"
proof -
  obtain r e req where c: "classify request res code (easy_strerror t) = (r, e, req)"
    by (cases "classify request res code (easy_strerror t)") auto
  with assms(2) have req: "req = request" by (rule classify_head)
  show ?thesis
    unfolding complete_registered [OF assms(1)] c req
    by (cases r) (simp_all add: assms(3) invoke_head Let_def del: invoke.simps do_put.simps)
qed

lemma head_ok_no_put:
  assumes "map_of (active_requests t) h = Some request"
    and "operation request = HEAD"
    and "callback request = HeadCheck hex_key payload cb"
    and "is_reply cb"
    and "classify request res code (easy_strerror t) = (OK, e, req)"
  shows "active_requests
           (complete t \<lparr>msg = CURLMSG_DONE, easy_handle = h, data_result = res, response_code = code\<rparr>)
           = AList.delete h (active_requests t)"
    and "multi_handles
           (complete t \<lparr>msg = CURLMSG_DONE, easy_handle = h, data_result = res, response_code = code\<rparr>)
           = removeAll h (multi_handles t)"
    and "invoked
           (complete t \<lparr>msg = CURLMSG_DONE, easy_handle = h, data_result = res, response_code = code\<rparr>)
           = invoked t @ [(HeadCheck hex_key payload cb,
                            \<lparr>result = OK, error = e, data = response_data request\<rparr>),
                          (cb, \<lparr>result = NOOP, error = [], data = []\<rparr>)]"
  unfolding head_completion [OF assms(1,2,3)] assms(5)
  by (simp_all add: Let_def invoke_reply_frame [OF assms(4)] erase_request_def del: invoke.simps)

text \<open>
  C1. When the HTTP handle can be created, a PUT without overwrite registers one HEAD request
  for the key's URL, whose callback is the \<open>HeadCheck\<close> closure, and nothing else (no PUT, no
  call of a callback); a PUT with overwrite registers the PUT request at once, with no HEAD.
  When the HEAD completes: classified OK, the caller's callback is called with NOOP (for a
  reply lambda the registry only loses the HEAD request, so no PUT is issued); classified
  NOOP, \<^verbatim>\<open>do_put\<close> issues the PUT with the caller's callback; classified ERROR, the
  caller's callback is called with that error. A PUT request that completes calls its
  callback with its own classified outcome.
\<close>

theorem conditional_put:
  "(easy_init_ok s (easy_init_calls s) \<longrightarrow>
      put s hex_key payload False cb =
        add_request (s\<lparr>easy_init_calls := Suc (easy_init_calls s)\<rparr>) (easy_init_calls s)
          ((make_request HEAD (build_url (config s) hex_key) [] cb)
             \<lparr>req_headers := header_lines (config s), callback := HeadCheck hex_key payload cb\<rparr>) \<and>
      put s hex_key payload True cb =
        add_request (s\<lparr>easy_init_calls := Suc (easy_init_calls s)\<rparr>) (easy_init_calls s)
          ((make_request PUT (build_url (config s) hex_key) payload cb)
             \<lparr>req_headers := header_lines (config s)\<rparr>)) \<and>
   (map_of (active_requests t) h = Some request \<and> operation request = HEAD \<and>
    callback request = HeadCheck hex_key payload cb \<longrightarrow>
      complete t \<lparr>msg = CURLMSG_DONE, easy_handle = h, data_result = res, response_code = code\<rparr> =
        (case classify request res code (easy_strerror t) of
           (r, e, req) \<Rightarrow>
             (let t' = note_call (HeadCheck hex_key payload cb)
                         \<lparr>result = r, error = e, data = response_data request\<rparr> (erase_request t h)
              in case r of
                   OK \<Rightarrow> invoke cb \<lparr>result = NOOP, error = [], data = []\<rparr> t'
                 | NOOP \<Rightarrow> do_put t' hex_key payload cb
                 | ERROR \<Rightarrow> invoke cb \<lparr>result = ERROR, error = e, data = response_data request\<rparr> t'))) \<and>
   (map_of (active_requests t) h = Some request \<and> operation request = HEAD \<and>
    callback request = HeadCheck hex_key payload cb \<and> is_reply cb \<and>
    fst (classify request res code (easy_strerror t)) = OK \<longrightarrow>
      active_requests
        (complete t \<lparr>msg = CURLMSG_DONE, easy_handle = h, data_result = res, response_code = code\<rparr>)
        = AList.delete h (active_requests t) \<and>
      multi_handles
        (complete t \<lparr>msg = CURLMSG_DONE, easy_handle = h, data_result = res, response_code = code\<rparr>)
        = removeAll h (multi_handles t) \<and>
      map fst (invoked
        (complete t \<lparr>msg = CURLMSG_DONE, easy_handle = h, data_result = res, response_code = code\<rparr>))
        = map fst (invoked t) @ [HeadCheck hex_key payload cb, cb] \<and>
      snd (last (invoked
        (complete t \<lparr>msg = CURLMSG_DONE, easy_handle = h, data_result = res, response_code = code\<rparr>)))
        = \<lparr>result = NOOP, error = [], data = []\<rparr>) \<and>
   (map_of (active_requests t) h = Some request \<and> operation request = PUT \<longrightarrow>
      complete t \<lparr>msg = CURLMSG_DONE, easy_handle = h, data_result = res, response_code = code\<rparr> =
        (case classify request res code (easy_strerror t) of
           (r, e, req) \<Rightarrow>
             invoke (callback request) \<lparr>result = r, error = e, data = response_data request\<rparr>
               (erase_request t h)))"
proof (intro conjI impI)
  assume ok: "easy_init_ok s (easy_init_calls s)"
  show "put s hex_key payload False cb =
        add_request (s\<lparr>easy_init_calls := Suc (easy_init_calls s)\<rparr>) (easy_init_calls s)
          ((make_request HEAD (build_url (config s) hex_key) [] cb)
             \<lparr>req_headers := header_lines (config s), callback := HeadCheck hex_key payload cb\<rparr>)"
    by (rule schedule_ok(3) [OF ok])
  show "put s hex_key payload True cb =
        add_request (s\<lparr>easy_init_calls := Suc (easy_init_calls s)\<rparr>) (easy_init_calls s)
          ((make_request PUT (build_url (config s) hex_key) payload cb)
             \<lparr>req_headers := header_lines (config s)\<rparr>)"
    by (rule schedule_ok(4) [OF ok])
next
  assume "map_of (active_requests t) h = Some request \<and> operation request = HEAD \<and>
    callback request = HeadCheck hex_key payload cb"
  then show "complete t \<lparr>msg = CURLMSG_DONE, easy_handle = h, data_result = res, response_code = code\<rparr> =
        (case classify request res code (easy_strerror t) of
           (r, e, req) \<Rightarrow>
             (let t' = note_call (HeadCheck hex_key payload cb)
                         \<lparr>result = r, error = e, data = response_data request\<rparr> (erase_request t h)
              in case r of
                   OK \<Rightarrow> invoke cb \<lparr>result = NOOP, error = [], data = []\<rparr> t'
                 | NOOP \<Rightarrow> do_put t' hex_key payload cb
                 | ERROR \<Rightarrow> invoke cb \<lparr>result = ERROR, error = e, data = response_data request\<rparr> t'))"
    using head_completion [of t h request hex_key payload cb res code] by blast
next
  assume a: "map_of (active_requests t) h = Some request \<and> operation request = HEAD \<and>
    callback request = HeadCheck hex_key payload cb \<and> is_reply cb \<and>
    fst (classify request res code (easy_strerror t)) = OK"
  then obtain e req where c: "classify request res code (easy_strerror t) = (OK, e, req)"
    by (cases "classify request res code (easy_strerror t)") auto
  from a have a1: "map_of (active_requests t) h = Some request" and a2: "operation request = HEAD"
    and a3: "callback request = HeadCheck hex_key payload cb" and a4: "is_reply cb" by auto
  note n = head_ok_no_put [OF a1 a2 a3 a4 c]
  show "active_requests
        (complete t \<lparr>msg = CURLMSG_DONE, easy_handle = h, data_result = res, response_code = code\<rparr>)
        = AList.delete h (active_requests t)" by (rule n(1))
  show "multi_handles
        (complete t \<lparr>msg = CURLMSG_DONE, easy_handle = h, data_result = res, response_code = code\<rparr>)
        = removeAll h (multi_handles t)" by (rule n(2))
  show "map fst (invoked
        (complete t \<lparr>msg = CURLMSG_DONE, easy_handle = h, data_result = res, response_code = code\<rparr>))
        = map fst (invoked t) @ [HeadCheck hex_key payload cb, cb]" by (simp add: n(3))
  show "snd (last (invoked
        (complete t \<lparr>msg = CURLMSG_DONE, easy_handle = h, data_result = res, response_code = code\<rparr>)))
        = \<lparr>result = NOOP, error = [], data = []\<rparr>" by (simp add: n(3))
next
  assume a: "map_of (active_requests t) h = Some request \<and> operation request = PUT"
  obtain r e req where c: "classify request res code (easy_strerror t) = (r, e, req)"
    by (cases "classify request res code (easy_strerror t)") auto
  with a have req: "req = request" by (auto dest: classify_put)
  from a show "complete t \<lparr>msg = CURLMSG_DONE, easy_handle = h, data_result = res, response_code = code\<rparr> =
        (case classify request res code (easy_strerror t) of
           (r, e, req) \<Rightarrow>
             invoke (callback request) \<lparr>result = r, error = e, data = response_data request\<rparr>
               (erase_request t h))"
    by (simp add: complete_registered c req del: invoke.simps)
qed

text \<open>
  Scenarios 3, 4 and 5 of the spec (FLAT layout, key \<open>ab\<close>): without overwrite, HEAD 404 and
  then PUT 201 send the reply byte 0x00; HEAD 200 sends 0x01 and issues no PUT; with
  overwrite, PUT 412 sends 0x01.
\<close>

lemma flat_config_simps:
  "url flat_config = ''https://c.example/''" "layout flat_config = FLAT"
  "bearer_token flat_config = None" "headers flat_config = []"
  by (simp_all add: flat_config_def example_config_def default_Config_def)

lemma build_url_flat_ab: "build_url flat_config ''ab'' = ''https://c.example/ab''"
  by (simp add: build_url_def flat_config_simps)

lemma put_head_example:
  "put (initial_server flat_config) ''ab'' [1, 2] False PutReply =
     (initial_server flat_config)
       \<lparr>active_requests :=
          [(0, make_request HEAD ''https://c.example/ab'' [] (HeadCheck ''ab'' [1, 2] PutReply))],
        multi_handles := [0], easy_init_calls := 1\<rparr>"
  by (simp add: put_def create_easy_handle_def add_request_def header_lines_def
      build_url_flat_ab flat_config_simps make_request_def)
    (simp add: initial_server_def flat_config_simps build_url_flat_ab header_lines_def
      add_request_def)

lemma put_overwrite_example:
  "put (initial_server flat_config) ''ab'' [1, 2] True PutReply =
     (initial_server flat_config)
       \<lparr>active_requests := [(0, make_request PUT ''https://c.example/ab'' [1, 2] PutReply)],
        multi_handles := [0], easy_init_calls := 1\<rparr>"
  by (simp add: put_def create_easy_handle_def add_request_def header_lines_def
      build_url_flat_ab flat_config_simps make_request_def)
    (simp add: initial_server_def flat_config_simps build_url_flat_ab header_lines_def
      add_request_def)

lemma scenario_4:
  "complete (put (initial_server flat_config) ''ab'' [1, 2] False PutReply)
      \<lparr>msg = CURLMSG_DONE, easy_handle = 0, data_result = CURLE_OK, response_code = 200\<rparr> =
     (initial_server flat_config)
       \<lparr>easy_init_calls := 1, uv_writes := [([STATUS_NOOP], True)], writes_in_flight := 1,
        client := \<lparr>read_buf = [], write_queue = [], writing = True\<rparr>,
        invoked := [(HeadCheck ''ab'' [1, 2] PutReply, \<lparr>result = OK, error = [], data = []\<rparr>),
                    (PutReply, \<lparr>result = NOOP, error = [], data = []\<rparr>)]\<rparr>"
  unfolding put_head_example
  by (simp add: complete_def classify_def make_request_def erase_request_def CURLE_OK_def
      initial_server_def note_call_def send_simple_response_def send_response_def
      flush_write_queue_def uv_buf_init_def Let_def)

lemma scenario_3_head:
  "complete (put (initial_server flat_config) ''ab'' [1, 2] False PutReply)
      \<lparr>msg = CURLMSG_DONE, easy_handle = 0, data_result = CURLE_OK, response_code = 404\<rparr> =
     (initial_server flat_config)
       \<lparr>active_requests := [(1, make_request PUT ''https://c.example/ab'' [1, 2] PutReply)],
        multi_handles := [1], easy_init_calls := 2,
        invoked := [(HeadCheck ''ab'' [1, 2] PutReply, \<lparr>result = NOOP, error = [], data = []\<rparr>)]\<rparr>"
  unfolding put_head_example
  by (simp add: complete_def classify_def make_request_def erase_request_def CURLE_OK_def
      initial_server_def note_call_def create_easy_handle_def add_request_def header_lines_def
      build_url_flat_ab flat_config_simps Let_def)

lemma scenario_3_put:
  "uv_writes (check_multi_info (put (initial_server flat_config) ''ab'' [1, 2] False PutReply)
      [\<lparr>msg = CURLMSG_DONE, easy_handle = 0, data_result = CURLE_OK, response_code = 404\<rparr>,
       \<lparr>msg = CURLMSG_DONE, easy_handle = 1, data_result = CURLE_OK, response_code = 201\<rparr>])
    = [([STATUS_OK], True)]"
  unfolding check_multi_info.simps scenario_3_head
  by (simp add: complete_def classify_def make_request_def erase_request_def CURLE_OK_def
      initial_server_def note_call_def send_simple_response_def send_response_def
      flush_write_queue_def uv_buf_init_def Let_def)

lemma scenario_5:
  "uv_writes (complete (put (initial_server flat_config) ''ab'' [1, 2] True PutReply)
      \<lparr>msg = CURLMSG_DONE, easy_handle = 0, data_result = CURLE_OK, response_code = 412\<rparr>)
    = [([STATUS_NOOP], True)]"
  unfolding put_overwrite_example
  by (simp add: complete_def classify_def make_request_def erase_request_def CURLE_OK_def
      initial_server_def note_call_def send_simple_response_def send_response_def
      flush_write_queue_def uv_buf_init_def Let_def)

theorem conditional_put_witness:
  "easy_init_ok (initial_server flat_config) (easy_init_calls (initial_server flat_config)) \<and>
   active_requests (put (initial_server flat_config) ''ab'' [1, 2] False PutReply) =
     [(0, make_request HEAD ''https://c.example/ab'' [] (HeadCheck ''ab'' [1, 2] PutReply))] \<and>
   active_requests
     (complete (put (initial_server flat_config) ''ab'' [1, 2] False PutReply)
        \<lparr>msg = CURLMSG_DONE, easy_handle = 0, data_result = CURLE_OK, response_code = 200\<rparr>) = [] \<and>
   map fst (invoked
     (complete (put (initial_server flat_config) ''ab'' [1, 2] False PutReply)
        \<lparr>msg = CURLMSG_DONE, easy_handle = 0, data_result = CURLE_OK, response_code = 200\<rparr>))
     = [HeadCheck ''ab'' [1, 2] PutReply, PutReply] \<and>
   invoked
     (complete (put (initial_server flat_config) ''ab'' [1, 2] True PutReply)
        \<lparr>msg = CURLMSG_DONE, easy_handle = 0, data_result = CURLE_OK, response_code = 412\<rparr>)
     = [(PutReply, \<lparr>result = NOOP, error = [], data = []\<rparr>)]"
  using
    conditional_put [of "initial_server flat_config" "''ab''" "[1, 2]" PutReply
      "put (initial_server flat_config) ''ab'' [1, 2] False PutReply" 0
      "make_request HEAD ''https://c.example/ab'' [] (HeadCheck ''ab'' [1, 2] PutReply)"
      CURLE_OK 200]
    conditional_put [of "initial_server flat_config" "''ab''" "[1, 2]" PutReply
      "put (initial_server flat_config) ''ab'' [1, 2] True PutReply" 0
      "make_request PUT ''https://c.example/ab'' [1, 2] PutReply"
      CURLE_OK 412]
  unfolding put_head_example put_overwrite_example
  by (simp add: classify_def make_request_def erase_request_def CURLE_OK_def
      initial_server_def note_call_def send_simple_response_def send_response_def
      flush_write_queue_def uv_buf_init_def Let_def is_reply_def header_lines_def flat_config_simps
      build_url_flat_ab add_request_def)

section \<open>Decoding the accumulator\<close>

lemmas req_defs = REQ_GET_def REQ_PUT_def REQ_REMOVE_def REQ_STOP_def

lemma set_read_buf_simps [simp]:
  "read_buf (client (set_read_buf s buf)) = buf"
  "write_queue (client (set_read_buf s buf)) = write_queue (client s)"
  "writing (client (set_read_buf s buf)) = writing (client s)"
  "active_requests (set_read_buf s buf) = active_requests s"
  "invoked (set_read_buf s buf) = invoked s"
  "uv_writes (set_read_buf s buf) = uv_writes s"
  "stopped (set_read_buf s buf) = stopped s"
  "config (set_read_buf s buf) = config s"
  by (simp_all add: set_read_buf_def)

lemma set_read_buf_twice [simp]: "set_read_buf (set_read_buf s a) b = set_read_buf s b"
  by (simp add: set_read_buf_def)

lemma process_empty: "read_buf (client s) = [] \<Longrightarrow> process_client_data s = Inr s"
  by (subst process_client_data.simps) simp

lemma process_stop:
  "read_buf (client s) = REQ_STOP # rest \<Longrightarrow>
   process_client_data s = Inr (stop (send_response (set_read_buf s rest) [STATUS_OK]))"
  by (subst process_client_data.simps) (simp add: Let_def)

lemma process_unknown:
  assumes "read_buf (client s) = request_type # rest"
    and "request_type \<noteq> REQ_GET" and "request_type \<noteq> REQ_PUT"
    and "request_type \<noteq> REQ_REMOVE" and "request_type \<noteq> REQ_STOP"
  shows "process_client_data s = Inr (stop s)"
  using assms by (subst process_client_data.simps) (simp add: Let_def)

text \<open>
  A complete GET, REMOVE or PUT record at the front of the accumulator is consumed whole (the
  type byte and every declared field) and the loop goes on with the bytes after it; for a PUT
  this needs the declared value length to leave \<open>offset + value_len\<close> below \<open>2 ^ 64\<close>.
\<close>

lemma process_get:
  assumes "read_buf (client s) = REQ_GET # klen # key @ rest" and "length key = unat klen"
  shows "process_client_data s =
           process_client_data (set_read_buf (get s (format_hex key) GetReply) rest)"
  using assms by (subst process_client_data.simps) (simp add: Let_def req_defs)

lemma process_remove:
  assumes "read_buf (client s) = REQ_REMOVE # klen # key @ rest" and "length key = unat klen"
  shows "process_client_data s =
           process_client_data (set_read_buf (remove_op s (format_hex key) RemoveReply) rest)"
  using assms by (subst process_client_data.simps) (simp add: Let_def req_defs)

lemma drop_prefix: "length p = n \<Longrightarrow> drop n (p @ q) = q"
  by simp

lemma process_put:
  assumes buf: "read_buf (client s) = REQ_PUT # klen # key @ flags # len8 @ val @ rest"
    and key: "length key = unat klen" and len8: "length len8 = 8"
    and vlen: "read_u64_host_byte_order len8 = length val"
    and bound: "11 + length key + length val < 2 ^ 64"
  shows "process_client_data s =
           process_client_data
             (set_read_buf (put s (format_hex key) val (flags AND PUT_FLAG_OVERWRITE \<noteq> 0) PutReply) rest)"
proof -
  let ?buf = "(1::byte) # klen # key @ flags # len8 @ val @ rest"
  have d1: "drop (11 + unat klen) ?buf = val @ rest"
    using drop_prefix [of "(1::byte) # klen # key @ flags # len8" "11 + unat klen" "val @ rest"]
      key len8 by simp
  have d2: "drop (11 + unat klen + length val) ?buf = rest"
    using drop_prefix [of "(1::byte) # klen # key @ flags # len8 @ val"
        "11 + unat klen + length val" rest] key len8 by simp
  have n: "(key @ flags # len8 @ val @ rest) ! unat klen = flags"
    using key by (metis nth_append_length)
  show ?thesis
    using assms
    by (subst process_client_data.simps) (simp add: Let_def req_defs d1 d2 n)
qed

text \<open>
  A record whose key, or whose PUT fields, have not fully arrived leaves the state as it is.
\<close>

lemma process_incomplete_key:
  assumes "read_buf (client s) = request_type # partial"
    and "request_type = REQ_GET \<or> request_type = REQ_PUT \<or> request_type = REQ_REMOVE"
    and "partial = [] \<or> length (tl partial) < unat (hd partial)"
  shows "process_client_data s = Inr s"
  using assms
  by (subst process_client_data.simps) (cases partial; auto simp: Let_def req_defs)

lemma process_incomplete_put:
  assumes "read_buf (client s) = REQ_PUT # klen # key @ partial"
    and "length key = unat klen"
    and "length partial < 9 \<or>
         length (drop 9 partial) < read_u64_host_byte_order (take 8 (drop 1 partial)) \<and>
         11 + length key + read_u64_host_byte_order (take 8 (drop 1 partial)) < 2 ^ 64"
  shows "process_client_data s = Inr s"
  using assms
  by (subst process_client_data.simps) (auto simp: Let_def req_defs)

lemma stop_frame [simp]:
  "read_buf (client (stop s)) = read_buf (client s)"
  "active_requests (stop s) = active_requests s"
  "invoked (stop s) = invoked s"
  "all_blobs (stop s) = all_blobs s"
  "stopped (stop s)"
  by (simp_all add: stop_def all_blobs_def)

lemma set_read_buf_all_blobs [simp]: "all_blobs (set_read_buf s buf) = all_blobs s"
  by (simp add: all_blobs_def)

text \<open>
  One read that holds a GET record and the first two bytes of a REMOVE record: the GET is
  scheduled and the two bytes stay in the accumulator.
\<close>

lemma incomplete_suffix_retained:
  "process_client_data (set_read_buf (initial_server example_config) [REQ_GET, 1, 0xAB, REQ_REMOVE, 1])
     = Inr ((initial_server example_config)
              \<lparr>active_requests := [(0, make_request GET ''https://c.example/ab/'' [] GetReply)],
               multi_handles := [0], easy_init_calls := 1,
               client := \<lparr>read_buf = [REQ_REMOVE, 1], write_queue = [], writing = False\<rparr>\<rparr>)"
proof -
  let ?s0 = "set_read_buf (initial_server example_config) [REQ_GET, 1, 0xAB, REQ_REMOVE, 1]"
  let ?s1 = "set_read_buf (get ?s0 (format_hex [0xAB]) GetReply) [REQ_REMOVE, 1]"
  have hex: "format_hex [0xAB] = ''ab''"
    by (simp add: format_hex_def hex_digit_def)
  have "process_client_data ?s0 = process_client_data ?s1"
    using process_get [of ?s0 1 "[0xAB]" "[REQ_REMOVE, 1]"] by simp
  also have "\<dots> = Inr ?s1"
    using process_incomplete_key [of ?s1 REQ_REMOVE "[1]"] by simp
  also have "?s1 = (initial_server example_config)
              \<lparr>active_requests := [(0, make_request GET ''https://c.example/ab/'' [] GetReply)],
               multi_handles := [0], easy_init_calls := 1,
               client := \<lparr>read_buf = [REQ_REMOVE, 1], write_queue = [], writing = False\<rparr>\<rparr>"
    unfolding hex
    by (simp add: get_def create_easy_handle_def example_config_def default_Config_def
        add_request_def build_url_def substr_def substr_from_def header_lines_def
        make_request_def initial_server_def set_read_buf_def)
  finally show ?thesis .
qed

text \<open>
  C5. A PUT record with an empty key whose length field is \<open>2 ^ 64 - 1\<close>: while the eighth
  length byte is missing the bytes are retained, as the claim says. Once the eleven bytes of
  the header are there, \<open>offset + value_len\<close> wraps to 10, the test \<open>len < offset + value_len\<close>
  for an incomplete message passes, and the value is built from a range that ends before it
  starts, although the record's value bytes have not arrived.
\<close>

theorem put_length_overflow:
  "process_client_data
     (set_read_buf (initial_server example_config) [REQ_PUT, 0, 0, 255, 255, 255, 255, 255, 255, 255])
     = Inr (set_read_buf (initial_server example_config)
              [REQ_PUT, 0, 0, 255, 255, 255, 255, 255, 255, 255]) \<and>
   process_client_data
     (set_read_buf (initial_server example_config)
        [REQ_PUT, 0, 0, 255, 255, 255, 255, 255, 255, 255, 255])
     = Inl Length_error"
proof
  show "process_client_data
     (set_read_buf (initial_server example_config) [REQ_PUT, 0, 0, 255, 255, 255, 255, 255, 255, 255])
     = Inr (set_read_buf (initial_server example_config)
              [REQ_PUT, 0, 0, 255, 255, 255, 255, 255, 255, 255])"
    by (subst process_client_data.simps) (simp add: Let_def req_defs)
  show "process_client_data
     (set_read_buf (initial_server example_config)
        [REQ_PUT, 0, 0, 255, 255, 255, 255, 255, 255, 255, 255])
     = Inl Length_error"
    by (subst process_client_data.simps) (simp add: Let_def req_defs read_u64_host_byte_order_def)
qed

text \<open>
  C7. A record whose first byte is none of the four request types stops the server: the only
  change of the state is the stop flag, so nothing is added to the blobs of the connection,
  no request is scheduled and no callback is called.
\<close>

theorem unknown_request_type:
  assumes "read_buf (client s) = request_type # rest"
    and "request_type \<noteq> REQ_GET" and "request_type \<noteq> REQ_PUT"
    and "request_type \<noteq> REQ_REMOVE" and "request_type \<noteq> REQ_STOP"
  shows "process_client_data s = Inr (s\<lparr>stopped := True\<rparr>) \<and>
         all_blobs (s\<lparr>stopped := True\<rparr>) = all_blobs s"
  using process_unknown [OF assms] by (simp add: stop_def all_blobs_def)

theorem unknown_request_type_witness:
  "process_client_data (set_read_buf (initial_server example_config) [0x07, 0x01, 0xAB])
     = Inr ((set_read_buf (initial_server example_config) [0x07, 0x01, 0xAB])\<lparr>stopped := True\<rparr>) \<and>
   all_blobs ((set_read_buf (initial_server example_config) [0x07, 0x01, 0xAB])\<lparr>stopped := True\<rparr>) = []"
  using unknown_request_type
    [of "set_read_buf (initial_server example_config) [0x07, 0x01, 0xAB]" "0x07" "[0x01, 0xAB]"]
  by (simp add: req_defs) (simp add: all_blobs_def initial_server_def set_read_buf_def)

text \<open>
  The same at a later record of the stream: a GET record followed by an unknown type byte
  schedules the GET and then stops, with the unknown byte still at the front.
\<close>

lemma unknown_after_get:
  assumes "read_buf (client s) = REQ_GET # klen # key @ request_type # rest"
    and "length key = unat klen"
    and "request_type \<noteq> REQ_GET" and "request_type \<noteq> REQ_PUT"
    and "request_type \<noteq> REQ_REMOVE" and "request_type \<noteq> REQ_STOP"
  shows "process_client_data s =
           Inr (stop (set_read_buf (get s (format_hex key) GetReply) (request_type # rest)))"
proof -
  have "process_client_data s =
      process_client_data (set_read_buf (get s (format_hex key) GetReply) (request_type # rest))"
    using assms(1,2) by (rule process_get)
  also have "\<dots> = Inr (stop (set_read_buf (get s (format_hex key) GetReply) (request_type # rest)))"
    using assms(3-6) by (intro process_unknown [where rest = rest]) simp_all
  finally show ?thesis .
qed

text \<open>
  C9 (as amended). The call that decodes a STOP removes the STOP byte alone, enqueues the one
  success byte, sets the stop flag and returns: it schedules no request and calls no callback.
  The bytes after the STOP byte are not discarded: they stay in the accumulator.
\<close>

theorem stop_request:
  assumes "read_buf (client s) = REQ_STOP # rest"
  shows "process_client_data s = Inr (stop (send_response (set_read_buf s rest) [STATUS_OK])) \<and>
         read_buf (client (stop (send_response (set_read_buf s rest) [STATUS_OK]))) = rest \<and>
         stopped (stop (send_response (set_read_buf s rest) [STATUS_OK])) \<and>
         all_blobs (stop (send_response (set_read_buf s rest) [STATUS_OK])) = all_blobs s @ [[STATUS_OK]] \<and>
         active_requests (stop (send_response (set_read_buf s rest) [STATUS_OK])) = active_requests s \<and>
         invoked (stop (send_response (set_read_buf s rest) [STATUS_OK])) = invoked s"
  using process_stop [OF assms] by simp

theorem stop_request_witness:
  "process_client_data (set_read_buf (initial_server example_config) [REQ_STOP, REQ_GET, 1, 0xAB]) =
     Inr (stop (send_response (set_read_buf (initial_server example_config) [REQ_GET, 1, 0xAB])
                  [STATUS_OK])) \<and>
   read_buf (client (stop (send_response
       (set_read_buf (initial_server example_config) [REQ_GET, 1, 0xAB]) [STATUS_OK])))
     = [REQ_GET, 1, 0xAB] \<and>
   all_blobs (stop (send_response
       (set_read_buf (initial_server example_config) [REQ_GET, 1, 0xAB]) [STATUS_OK]))
     = [[STATUS_OK]] \<and>
   active_requests (stop (send_response
       (set_read_buf (initial_server example_config) [REQ_GET, 1, 0xAB]) [STATUS_OK])) = []"
  using stop_request
    [of "set_read_buf (initial_server example_config) [REQ_STOP, REQ_GET, 1, 0xAB]"
        "[REQ_GET, 1, 0xAB]"]
  by simp (simp add: all_blobs_def initial_server_def set_read_buf_def)

text \<open>
  C9 as the spec states it fails: after STOP followed by a GET record in one read, the GET
  record is still in the accumulator, and the next read on the connection (here one more
  byte) makes the decoder schedule that GET.
\<close>

theorem stop_keeps_pipelined_bytes:
  "on_client_read (initial_server example_config) (Data [REQ_STOP, REQ_GET, 1, 0xAB]) =
     Inr ((initial_server example_config)
            \<lparr>client := \<lparr>read_buf = [REQ_GET, 1, 0xAB], write_queue = [], writing = True\<rparr>,
             uv_writes := [([STATUS_OK], True)], writes_in_flight := 1, stopped := True\<rparr>) \<and>
   on_client_read
     ((initial_server example_config)
        \<lparr>client := \<lparr>read_buf = [REQ_GET, 1, 0xAB], write_queue = [], writing = True\<rparr>,
         uv_writes := [([STATUS_OK], True)], writes_in_flight := 1, stopped := True\<rparr>)
     (Data [REQ_STOP]) =
     Inr ((initial_server example_config)
            \<lparr>active_requests := [(0, make_request GET ''https://c.example/ab/'' [] GetReply)],
             multi_handles := [0], easy_init_calls := 1,
             client := \<lparr>read_buf = [], write_queue = [[STATUS_OK]], writing = True\<rparr>,
             uv_writes := [([STATUS_OK], True)], writes_in_flight := 1, stopped := True\<rparr>)"
proof
  let ?s0 = "initial_server example_config"
  have idle: "idle_timeout_seconds example_config = 0"
    by (simp add: example_config_def default_Config_def)
  have "on_client_read ?s0 (Data [REQ_STOP, REQ_GET, 1, 0xAB]) =
      process_client_data (set_read_buf ?s0 [REQ_STOP, REQ_GET, 1, 0xAB])"
    by (simp add: reset_idle_timer_def idle initial_server_def)
  also have "\<dots> = Inr (stop (send_response (set_read_buf ?s0 [REQ_GET, 1, 0xAB]) [STATUS_OK]))"
    using process_stop [of "set_read_buf ?s0 [REQ_STOP, REQ_GET, 1, 0xAB]" "[REQ_GET, 1, 0xAB]"]
    by simp
  also have "stop (send_response (set_read_buf ?s0 [REQ_GET, 1, 0xAB]) [STATUS_OK]) =
      ?s0\<lparr>client := \<lparr>read_buf = [REQ_GET, 1, 0xAB], write_queue = [], writing = True\<rparr>,
             uv_writes := [([STATUS_OK], True)], writes_in_flight := 1, stopped := True\<rparr>"
    by (simp add: stop_def send_response_def flush_write_queue_def uv_buf_init_def set_read_buf_def
        initial_server_def Let_def)
  finally show "on_client_read ?s0 (Data [REQ_STOP, REQ_GET, 1, 0xAB]) =
     Inr (?s0\<lparr>client := \<lparr>read_buf = [REQ_GET, 1, 0xAB], write_queue = [], writing = True\<rparr>,
             uv_writes := [([STATUS_OK], True)], writes_in_flight := 1, stopped := True\<rparr>)" .
next
  let ?s0 = "initial_server example_config"
  let ?s1 = "?s0\<lparr>client := \<lparr>read_buf = [REQ_GET, 1, 0xAB], write_queue = [], writing = True\<rparr>,
             uv_writes := [([STATUS_OK], True)], writes_in_flight := 1, stopped := True\<rparr>"
  let ?s2 = "set_read_buf ?s1 [REQ_GET, 1, 0xAB, REQ_STOP]"
  let ?s3 = "set_read_buf (get ?s2 (format_hex [0xAB]) GetReply) [REQ_STOP]"
  have idle: "idle_timeout_seconds example_config = 0"
    by (simp add: example_config_def default_Config_def)
  have hex: "format_hex [0xAB] = ''ab''"
    by (simp add: format_hex_def hex_digit_def)
  have g: "get ?s2 ''ab'' GetReply =
      ?s2\<lparr>active_requests := [(0, make_request GET ''https://c.example/ab/'' [] GetReply)],
          multi_handles := [0], easy_init_calls := 1\<rparr>"
    by (simp add: get_def create_easy_handle_def example_config_def default_Config_def
        add_request_def build_url_def substr_def substr_from_def header_lines_def
        make_request_def initial_server_def set_read_buf_def)
  have "on_client_read ?s1 (Data [REQ_STOP]) = process_client_data ?s2"
    by (simp add: reset_idle_timer_def idle initial_server_def)
  also have "\<dots> = process_client_data ?s3"
    using process_get [of ?s2 1 "[0xAB]" "[REQ_STOP]"] by simp
  also have "\<dots> = Inr (stop (send_response (set_read_buf ?s3 []) [STATUS_OK]))"
    using process_stop [of ?s3 "[]"] by simp
  also have "stop (send_response (set_read_buf ?s3 []) [STATUS_OK]) =
      ?s0\<lparr>active_requests := [(0, make_request GET ''https://c.example/ab/'' [] GetReply)],
             multi_handles := [0], easy_init_calls := 1,
             client := \<lparr>read_buf = [], write_queue = [[STATUS_OK]], writing = True\<rparr>,
             uv_writes := [([STATUS_OK], True)], writes_in_flight := 1, stopped := True\<rparr>"
    unfolding hex g
    by (simp add: stop_def send_response_def flush_write_queue_def uv_buf_init_def set_read_buf_def
        initial_server_def Let_def)
  finally show "on_client_read ?s1 (Data [REQ_STOP]) =
     Inr (?s0\<lparr>active_requests := [(0, make_request GET ''https://c.example/ab/'' [] GetReply)],
             multi_handles := [0], easy_init_calls := 1,
             client := \<lparr>read_buf = [], write_queue = [[STATUS_OK]], writing = True\<rparr>,
             uv_writes := [([STATUS_OK], True)], writes_in_flight := 1, stopped := True\<rparr>)" .
qed

section \<open>Replies follow completion, not decoding\<close>

text \<open>
  C6 as the spec states it fails: one read holds a GET record and then a REMOVE record, both
  are scheduled in that order, and the DELETE completes before the GET. The reply of the
  REMOVE (0x00) goes to \<^verbatim>\<open>uv_write\<close> first and the reply of the GET (0x01, not found) waits
  behind it in the queue: the replies leave in the order of completion, not in the order in
  which the requests were decoded.
\<close>

theorem replies_follow_completion_order:
  "on_client_read (initial_server example_config) (Data [REQ_GET, 1, 0xAB, REQ_REMOVE, 1, 0xCD]) =
     Inr ((initial_server example_config)
            \<lparr>active_requests := [(0, make_request GET ''https://c.example/ab/'' [] GetReply),
                                 (1, make_request DELETE ''https://c.example/cd/'' [] RemoveReply)],
             multi_handles := [0, 1], easy_init_calls := 2\<rparr>) \<and>
   uv_writes (check_multi_info
      ((initial_server example_config)
            \<lparr>active_requests := [(0, make_request GET ''https://c.example/ab/'' [] GetReply),
                                 (1, make_request DELETE ''https://c.example/cd/'' [] RemoveReply)],
             multi_handles := [0, 1], easy_init_calls := 2\<rparr>)
      [\<lparr>msg = CURLMSG_DONE, easy_handle = 1, data_result = CURLE_OK, response_code = 200\<rparr>,
       \<lparr>msg = CURLMSG_DONE, easy_handle = 0, data_result = CURLE_OK, response_code = 404\<rparr>])
     = [([STATUS_OK], True)] \<and>
   write_queue (client (check_multi_info
      ((initial_server example_config)
            \<lparr>active_requests := [(0, make_request GET ''https://c.example/ab/'' [] GetReply),
                                 (1, make_request DELETE ''https://c.example/cd/'' [] RemoveReply)],
             multi_handles := [0, 1], easy_init_calls := 2\<rparr>)
      [\<lparr>msg = CURLMSG_DONE, easy_handle = 1, data_result = CURLE_OK, response_code = 200\<rparr>,
       \<lparr>msg = CURLMSG_DONE, easy_handle = 0, data_result = CURLE_OK, response_code = 404\<rparr>]))
     = [[STATUS_NOOP]] \<and>
   invoked (check_multi_info
      ((initial_server example_config)
            \<lparr>active_requests := [(0, make_request GET ''https://c.example/ab/'' [] GetReply),
                                 (1, make_request DELETE ''https://c.example/cd/'' [] RemoveReply)],
             multi_handles := [0, 1], easy_init_calls := 2\<rparr>)
      [\<lparr>msg = CURLMSG_DONE, easy_handle = 1, data_result = CURLE_OK, response_code = 200\<rparr>,
       \<lparr>msg = CURLMSG_DONE, easy_handle = 0, data_result = CURLE_OK, response_code = 404\<rparr>])
     = [(RemoveReply, \<lparr>result = OK, error = [], data = []\<rparr>),
        (GetReply, \<lparr>result = NOOP, error = [], data = []\<rparr>)]"
proof -
  let ?s0 = "initial_server example_config"
  let ?a = "set_read_buf ?s0 [REQ_GET, 1, 0xAB, REQ_REMOVE, 1, 0xCD]"
  let ?b = "set_read_buf (get ?a (format_hex [0xAB]) GetReply) [REQ_REMOVE, 1, 0xCD]"
  let ?c = "set_read_buf (remove_op ?b (format_hex [0xCD]) RemoveReply) []"
  let ?s1 = "?s0\<lparr>active_requests := [(0, make_request GET ''https://c.example/ab/'' [] GetReply),
                                 (1, make_request DELETE ''https://c.example/cd/'' [] RemoveReply)],
             multi_handles := [0, 1], easy_init_calls := 2\<rparr>"
  let ?ms = "[\<lparr>msg = CURLMSG_DONE, easy_handle = 1, data_result = CURLE_OK, response_code = 200\<rparr>,
       \<lparr>msg = CURLMSG_DONE, easy_handle = 0, data_result = CURLE_OK, response_code = 404\<rparr>]"
  have idle: "idle_timeout_seconds example_config = 0"
    by (simp add: example_config_def default_Config_def)
  have hex: "format_hex [0xAB] = ''ab''" "format_hex [0xCD] = ''cd''"
    by (simp_all add: format_hex_def hex_digit_def)
  have "on_client_read ?s0 (Data [REQ_GET, 1, 0xAB, REQ_REMOVE, 1, 0xCD]) = process_client_data ?a"
    by (simp add: reset_idle_timer_def idle initial_server_def)
  also have "\<dots> = process_client_data ?b"
    using process_get [of ?a 1 "[0xAB]" "[REQ_REMOVE, 1, 0xCD]"] by simp
  also have "\<dots> = process_client_data ?c"
    using process_remove [of ?b 1 "[0xCD]" "[]"] by simp
  also have "\<dots> = Inr ?c"
    by (rule process_empty) simp
  also have "?c = ?s1"
    unfolding hex
    by (simp add: get_def remove_op_def create_easy_handle_def example_config_def default_Config_def
        add_request_def build_url_def substr_def substr_from_def header_lines_def
        make_request_def initial_server_def set_read_buf_def)
  finally have read: "on_client_read ?s0 (Data [REQ_GET, 1, 0xAB, REQ_REMOVE, 1, 0xCD]) = Inr ?s1" .
  have drained: "check_multi_info ?s1 ?ms =
      ?s0\<lparr>easy_init_calls := 2,
           client := \<lparr>read_buf = [], write_queue = [[STATUS_NOOP]], writing = True\<rparr>,
           uv_writes := [([STATUS_OK], True)], writes_in_flight := 1,
           invoked := [(RemoveReply, \<lparr>result = OK, error = [], data = []\<rparr>),
                       (GetReply, \<lparr>result = NOOP, error = [], data = []\<rparr>)]\<rparr>"
    by (simp add: complete_def classify_def make_request_def erase_request_def CURLE_OK_def
        initial_server_def note_call_def send_simple_response_def send_response_def
        flush_write_queue_def uv_buf_init_def Let_def)
  show ?thesis
    unfolding drained using read by simp
qed

end
